theory Spec2Isabelle
  imports Complex_Main
begin

section \<open>Values, errors and arrays\<close>

text \<open>
  The exceptions that \<^verbatim>\<open>evaluation/evaluation.py\<close> can raise itself or let through.
  \<open>InsufficientDataError\<close> and \<open>UnsupportedInputError\<close> are the two errors that the
  specification names; \<open>CollaboratorError\<close> stands for whatever an imported function or
  an external service raises.
\<close>

datatype error =
    AssertionError
  | ValueError
  | AttributeError
  | ZeroDivisionError
  | IndexError
  | RuntimeError
  | InsufficientDataError
  | UnsupportedInputError
  | CollaboratorError string

text \<open>
  A floating-point value is either a finite number or one of the three non-finite values.
  Only finiteness is ever inspected by the code under study; the arithmetic of the
  extractors and of the scores stays inside the imported collaborators.
\<close>

datatype pyfloat = Finite real | PosInf | NegInf | NaN

fun isfinite :: "pyfloat \<Rightarrow> bool" where
  "isfinite (Finite _) = True"
| "isfinite PosInf = False"
| "isfinite NegInf = False"
| "isfinite NaN = False"

text \<open>
  Arrays are kept by rows along the sample axis. A time series is a list of values, a
  sample of shape \<open>(c, l)\<close> is the list of its channels, a batch of shape \<open>(b, c, l)\<close>
  is the list of its samples, and a feature set of shape \<open>(b, d)\<close> is the list of its
  feature rows.
\<close>

type_synonym series = "pyfloat list"
type_synonym sample = "series list"
type_synonym batch = "sample list"
type_synonym features = "pyfloat list list"

subsection \<open>Python slicing, \<open>range\<close> and \<open>np.concatenate\<close>\<close>

text \<open>
  \<^verbatim>\<open>X[start:stop]\<close> along the first axis: a negative bound counts from the end, and both
  bounds are clamped to \<open>[0, len]\<close>; the slice is empty when the bounds cross.
\<close>

definition clamp_index :: "int \<Rightarrow> nat \<Rightarrow> nat" where
  "clamp_index i n = (if i < 0 then nat (max 0 (i + int n)) else min (nat i) n)"

definition py_slice :: "'a list \<Rightarrow> int \<Rightarrow> int \<Rightarrow> 'a list" where
  "py_slice xs start stop =
     (let lo = clamp_index start (length xs);
          hi = clamp_index stop (length xs)
      in take (hi - lo) (drop lo xs))"

text \<open>\<^verbatim>\<open>range(n)\<close> is empty for \<open>n \<le> 0\<close>.\<close>

definition py_range :: "int \<Rightarrow> nat list" where
  "py_range n = [0..<nat n]"

text \<open>
  \<^verbatim>\<open>np.concatenate(zs, axis=0)\<close> and \<^verbatim>\<open>torch.cat(zs)\<close> raise on an empty list of arrays
  (\<open>ValueError\<close> and \<open>RuntimeError\<close>). Every array in the list has the collaborator's
  fixed trailing shape, which the rows carry; the list of rows is what is concatenated.
\<close>

definition np_concatenate :: "'a list list \<Rightarrow> error + 'a list" where
  "np_concatenate zs = (if zs = [] then Inl ValueError else Inr (concat zs))"

definition torch_cat :: "'a list list \<Rightarrow> error + 'a list" where
  "torch_cat zs = (if zs = [] then Inl RuntimeError else Inr (concat zs))"

text \<open>
  The iteration count shared by every batched loop of the class:
  \<^verbatim>\<open>
  n_iters = n_samples // self.batch_size
  if n_samples % self.batch_size > 0:
      n_iters += 1
  \<close>
  Python's \<open>//\<close> and \<open>%\<close> round towards minus infinity, as \<open>div\<close> and \<open>mod\<close> do on
  \<open>int\<close>, and raise on a zero divisor.
\<close>

definition n_iters_of :: "nat \<Rightarrow> int \<Rightarrow> error + int" where
  "n_iters_of n_samples bs =
     (if bs = 0 then Inl ZeroDivisionError
      else Inr (int n_samples div bs + (if int n_samples mod bs > 0 then 1 else 0)))"

text \<open>
  The loop body shared by the batched drivers:
  \<^verbatim>\<open>
  zs = []
  for i in range(n_iters):
      s = slice(i * self.batch_size, (i + 1) * self.batch_size)
      z_t = fn(X[s])
      zs.append(z_t)
  \<close>
  An exception of \<open>fn\<close> leaves the loop at once.
\<close>

fun batch_loop :: "('x list \<Rightarrow> error + 'z) \<Rightarrow> 'x list \<Rightarrow> int \<Rightarrow> nat list \<Rightarrow> error + 'z list" where
  "batch_loop fn X bs [] = Inr []"
| "batch_loop fn X bs (i # idx) =
     (case fn (py_slice X (int i * bs) ((int i + 1) * bs)) of
        Inl e \<Rightarrow> Inl e
      | Inr z_t \<Rightarrow>
          (case batch_loop fn X bs idx of
             Inl e \<Rightarrow> Inl e
           | Inr zs \<Rightarrow> Inr (z_t # zs)))"

text \<open>The slices that the loop forms, in the order in which it forms them.\<close>

definition batch_slices :: "'x list \<Rightarrow> int \<Rightarrow> int \<Rightarrow> 'x list list" where
  "batch_slices X bs n_iters =
     map (\<lambda>i. py_slice X (int i * bs) ((int i + 1) * bs)) (py_range n_iters)"

section \<open>The evaluation object\<close>

text \<open>
  The pretrained classifier exposes its penultimate layer
  (\<^verbatim>\<open>return_feature_vector=True\<close>) and its output layer.
\<close>

record fcn_model =
  feature_vector :: "batch \<Rightarrow> error + features"
  logits :: "batch \<Rightarrow> error + features"

text \<open>
  \<^verbatim>\<open>self.fidelity_enhancer\<close> is either \<^verbatim>\<open>nn.Identity()\<close>, which has no attribute
  \<^verbatim>\<open>tau\<close>, or a loaded \<^verbatim>\<open>FidelityEnhancer\<close> with its \<^verbatim>\<open>tau\<close> and its forward map.
\<close>

datatype enhancer =
    Identity
  | FidelityEnhancer (tau : pyfloat) (fe_forward : "batch \<Rightarrow> error + batch")

fun enhancer_forward :: "enhancer \<Rightarrow> batch \<Rightarrow> error + batch" where
  "enhancer_forward Identity x = Inr x"
| "enhancer_forward (FidelityEnhancer t f) x = f x"

fun enhancer_tau :: "enhancer \<Rightarrow> error + pyfloat" where
  "enhancer_tau Identity = Inl AttributeError"
| "enhancer_tau (FidelityEnhancer t f) = Inr t"

text \<open>
  The attributes of \<^verbatim>\<open>self\<close> that the methods read. An attribute that the constructor
  sets only on some paths is an option: \<open>None\<close> is an attribute that was never set, and
  reading it raises \<open>AttributeError\<close>.
\<close>

record pca_model =
  pca_transform :: "features \<Rightarrow> error + features"
  xmin_pca :: pyfloat
  xmax_pca :: pyfloat
  ymin_pca :: pyfloat
  ymax_pca :: pyfloat

record 'k evaluation =
  batch_size :: int
  feature_extractor_type :: string
  fcn :: "fcn_model option"
  rocket_kernels :: "'k option"
  X_train :: batch
  X_test :: batch
  ts_len :: nat
  fidelity_enhancer :: enhancer
  z_train :: "features option"
  z_test :: "features option"
  pca :: "pca_model option"

text \<open>
  What a dataset importer holds: the two splits, their labels, and the length of the last
  axis of \<^verbatim>\<open>X_train\<close> (which the rows of an empty array would not tell).
\<close>

record dataset =
  importer_X_train :: batch
  importer_X_test :: batch
  importer_Y_train :: "int list"
  importer_Y_test :: "int list"
  importer_ts_len :: nat

text \<open>
  The imported functions whose code is outside \<^verbatim>\<open>evaluation/evaluation.py\<close>; each is a
  parameter of the model.
\<close>

record 'k collaborators =
  apply_kernels :: "series list \<Rightarrow> 'k \<Rightarrow> error + features"
  generate_kernels :: "int \<Rightarrow> int \<Rightarrow> error + 'k"
  load_pretrained_FCN :: "string \<Rightarrow> error + fcn_model"
  DatasetImporterUCR :: "string \<Rightarrow> error + dataset"
  DatasetImporterCustom :: "error + dataset"
  load_stage2 :: "string \<Rightarrow> error + unit"
  load_fidelity_enhancer :: "nat \<Rightarrow> string \<Rightarrow> error + pyfloat \<times> (batch \<Rightarrow> error + batch)"
  fit_pca :: "features \<Rightarrow> error + pca_model"
  unconditional_sample :: "int \<Rightarrow> int \<Rightarrow> error + batch \<times> batch \<times> batch"
  conditional_sample :: "int \<Rightarrow> int option \<Rightarrow> int \<Rightarrow> error + batch \<times> batch \<times> batch"
  to_device :: "batch \<Rightarrow> error + batch"
  svq_augment :: "pyfloat \<Rightarrow> batch \<Rightarrow> error + batch"
  calculate_inception_score :: "features \<Rightarrow> error + pyfloat \<times> pyfloat"
  softmax :: "pyfloat list \<Rightarrow> pyfloat list"

subsection \<open>\<^verbatim>\<open>_extract_feature_representations\<close>\<close>

text \<open>
  \<^verbatim>\<open>x[:, 0, :]\<close> takes channel 0 of every sample; it raises \<open>IndexError\<close> when the
  channel axis is empty.
\<close>

fun channel0 :: "batch \<Rightarrow> error + series list" where
  "channel0 [] = Inr []"
| "channel0 ([] # rest) = Inl IndexError"
| "channel0 ((c # cs) # rest) =
     (case channel0 rest of Inl e \<Rightarrow> Inl e | Inr r \<Rightarrow> Inr (c # r))"

text \<open>
  \<^verbatim>\<open>
  if self.feature_extractor_type == 'supervised_fcn':
      z = self.fcn(torch.from_numpy(x).float().to(self.device), return_feature_vector=True)...
  elif self.feature_extractor_type == 'rocket':
      x = x[:,0,:]
      z = apply_kernels(x, self.rocket_kernels)
  else:
      raise ValueError
  return z
  \<close>
\<close>

definition extract_feature_representations ::
  "'k collaborators \<Rightarrow> 'k evaluation \<Rightarrow> batch \<Rightarrow> error + features" where
  "extract_feature_representations ext ev x =
     (if feature_extractor_type ev = ''supervised_fcn'' then
        (case fcn ev of
           None \<Rightarrow> Inl AttributeError
         | Some f \<Rightarrow> feature_vector f x)
      else if feature_extractor_type ev = ''rocket'' then
        (case channel0 x of
           Inl e \<Rightarrow> Inl e
         | Inr x0 \<Rightarrow>
             (case rocket_kernels ev of
                None \<Rightarrow> Inl AttributeError
              | Some K \<Rightarrow> apply_kernels ext x0 K))
      else Inl ValueError)"

subsection \<open>\<^verbatim>\<open>compute_z\<close> and \<^verbatim>\<open>compute_z_gen\<close>\<close>

text \<open>
  \<^verbatim>\<open>
  assert kind in ['train', 'test']
  if kind == 'train':  X = self.X_train
  elif kind == 'test': X = self.X_test
  else: raise ValueError
  \<close>
\<close>

definition select_split :: "'k evaluation \<Rightarrow> string \<Rightarrow> error + batch" where
  "select_split ev kind =
     (if kind \<notin> set [''train'', ''test''] then Inl AssertionError
      else if kind = ''train'' then Inr (X_train ev)
      else if kind = ''test'' then Inr (X_test ev)
      else Inl ValueError)"

text \<open>
  The batching driver of \<^verbatim>\<open>compute_z\<close> (lines 234 to 246) and of \<^verbatim>\<open>compute_z_gen\<close>
  (lines 254 to 269), with the per-slice function as an argument.
\<close>

definition run_batches :: "('x list \<Rightarrow> error + 'z list) \<Rightarrow> 'x list \<Rightarrow> int \<Rightarrow> error + 'z list" where
  "run_batches fn X bs =
     (case n_iters_of (length X) bs of
        Inl e \<Rightarrow> Inl e
      | Inr n_iters \<Rightarrow>
          (case batch_loop fn X bs (py_range n_iters) of
             Inl e \<Rightarrow> Inl e
           | Inr zs \<Rightarrow> np_concatenate zs))"

definition compute_z :: "'k collaborators \<Rightarrow> 'k evaluation \<Rightarrow> string \<Rightarrow> error + features" where
  "compute_z ext ev kind =
     (case select_split ev kind of
        Inl e \<Rightarrow> Inl e
      | Inr X \<Rightarrow> run_batches (extract_feature_representations ext ev) X (batch_size ev))"

definition compute_z_gen :: "'k collaborators \<Rightarrow> 'k evaluation \<Rightarrow> batch \<Rightarrow> error + features" where
  "compute_z_gen ext ev X_gen =
     run_batches (extract_feature_representations ext ev) X_gen (batch_size ev)"

text \<open>
  A per-slice function that maps each row on its own: the rows are visited in order and
  the first row that fails decides the error.
\<close>

fun rowwise :: "('x \<Rightarrow> error + 'z) \<Rightarrow> 'x list \<Rightarrow> error + 'z list" where
  "rowwise g [] = Inr []"
| "rowwise g (r # rs) =
     (case g r of
        Inl e \<Rightarrow> Inl e
      | Inr z \<Rightarrow> (case rowwise g rs of Inl e \<Rightarrow> Inl e | Inr zs \<Rightarrow> Inr (z # zs)))"


text \<open>
  The number of iterations that the drivers make for \<open>n\<close> rows and a positive batch size
  \<open>b\<close>, as a natural number.
\<close>

definition ceil_iters :: "nat \<Rightarrow> nat \<Rightarrow> nat" where
  "ceil_iters n b = n div b + (if n mod b > 0 then 1 else 0)"

subsection \<open>\<^verbatim>\<open>sample\<close>\<close>

text \<open>
  \<^verbatim>\<open>num_batches = x_new.shape[0] // self.batch_size
                + (1 if x_new.shape[0] % self.batch_size != 0 else 0)\<close>
\<close>

definition num_batches_of :: "nat \<Rightarrow> int \<Rightarrow> error + int" where
  "num_batches_of n bs =
     (if bs = 0 then Inl ZeroDivisionError
      else Inr (int n div bs + (if int n mod bs \<noteq> 0 then 1 else 0)))"

text \<open>
  \<^verbatim>\<open>
  for i in range(num_batches):
      start_idx = i * self.batch_size
      end_idx = start_idx + self.batch_size
      mini_batch = x_new[start_idx:end_idx]
      x_new_R = self.fidelity_enhancer(mini_batch.to(self.device)).cpu()
      X_new_R.append(x_new_R)
  \<close>
  The moves \<^verbatim>\<open>.to(self.device)\<close> and \<^verbatim>\<open>.cpu()\<close> around the enhancer keep the values of the
  mini-batch; they are taken as part of the enhancer's call.
\<close>

fun refine_loop :: "enhancer \<Rightarrow> batch \<Rightarrow> int \<Rightarrow> nat list \<Rightarrow> error + batch list" where
  "refine_loop fe x_new bs [] = Inr []"
| "refine_loop fe x_new bs (i # idx) =
     (let start_idx = int i * bs; end_idx = start_idx + bs
      in case enhancer_forward fe (py_slice x_new start_idx end_idx) of
           Inl e \<Rightarrow> Inl e
         | Inr x_new_R \<Rightarrow>
             (case refine_loop fe x_new bs idx of
                Inl e \<Rightarrow> Inl e
              | Inr rest \<Rightarrow> Inr (x_new_R # rest)))"

definition sample ::
  "'k collaborators \<Rightarrow> 'k evaluation \<Rightarrow> int \<Rightarrow> string \<Rightarrow> int option \<Rightarrow>
     error + (batch \<times> batch \<times> batch) \<times> batch" where
  "sample ext ev n_samples kind class_index =
     (if kind \<notin> set [''unconditional'', ''conditional''] then Inl AssertionError
      else
        case (if kind = ''unconditional'' then
                unconditional_sample ext n_samples (batch_size ev)
              else if kind = ''conditional'' then
                conditional_sample ext n_samples class_index (batch_size ev)
              else Inl ValueError) of
          Inl e \<Rightarrow> Inl e
        | Inr (x_new_l, x_new_h, x_new) \<Rightarrow>
            (case num_batches_of (length x_new) (batch_size ev) of
               Inl e \<Rightarrow> Inl e
             | Inr num_batches \<Rightarrow>
                 (case refine_loop (fidelity_enhancer ev) x_new (batch_size ev)
                         (py_range num_batches) of
                    Inl e \<Rightarrow> Inl e
                  | Inr parts \<Rightarrow>
                      (case torch_cat parts of
                         Inl e \<Rightarrow> Inl e
                       | Inr X_new_R \<Rightarrow> Inr ((x_new_l, x_new_h, x_new), X_new_R)))))"

subsection \<open>\<^verbatim>\<open>compute_z_svq\<close>\<close>

text \<open>
  The body of the loop (lines 197 to 215). The slice is first converted and moved to the
  device, \<^verbatim>\<open>x = torch.from_numpy(x).float().to(self.device)\<close>, a statement of its own
  that can raise (\<open>to_device\<close>); then \<^verbatim>\<open>tau = self.fidelity_enhancer.tau.item()\<close> is read;
  then the stochastic variant \<open>x_a\<close> of the slice is made by the two encoders and decoders
  of the generative model (\<open>svq_augment\<close>); then its features are extracted.
\<close>

definition svq_step ::
  "'k collaborators \<Rightarrow> 'k evaluation \<Rightarrow> batch \<Rightarrow> error + features \<times> batch" where
  "svq_step ext ev x =
     (case to_device ext x of
        Inl e \<Rightarrow> Inl e
      | Inr xd \<Rightarrow>
          (case enhancer_tau (fidelity_enhancer ev) of
             Inl e \<Rightarrow> Inl e
           | Inr t \<Rightarrow>
               (case svq_augment ext t xd of
                  Inl e \<Rightarrow> Inl e
                | Inr x_a \<Rightarrow>
                    (case extract_feature_representations ext ev x_a of
                       Inl e \<Rightarrow> Inl e
                     | Inr z_t \<Rightarrow> Inr (z_t, x_a)))))"

definition compute_z_svq ::
  "'k collaborators \<Rightarrow> 'k evaluation \<Rightarrow> string \<Rightarrow> error + features \<times> batch" where
  "compute_z_svq ext ev kind =
     (case select_split ev kind of
        Inl e \<Rightarrow> Inl e
      | Inr X \<Rightarrow>
          (case n_iters_of (length X) (batch_size ev) of
             Inl e \<Rightarrow> Inl e
           | Inr n_iters \<Rightarrow>
               (case batch_loop (svq_step ext ev) X (batch_size ev) (py_range n_iters) of
                  Inl e \<Rightarrow> Inl e
                | Inr pairs \<Rightarrow>
                    (case np_concatenate (map fst pairs) of
                       Inl e \<Rightarrow> Inl e
                     | Inr zs \<Rightarrow>
                         (case np_concatenate (map snd pairs) of
                            Inl e \<Rightarrow> Inl e
                          | Inr xs_a \<Rightarrow> Inr (zs, xs_a))))))"

subsection \<open>\<^verbatim>\<open>fid_score\<close>\<close>

text \<open>
  Modelled from the spec: \<^verbatim>\<open>remove_outliers\<close> of \<^verbatim>\<open>utils\<close> is imported and its code is
  not among the sources. The specification: it "drops rows that contain any non-finite
  value (e.g. not-a-number or infinite magnitude) in any dimension", removing whole
  vectors and keeping the surviving rows in their original relative order.
\<close>

definition remove_outliers :: "features \<Rightarrow> features" where
  "remove_outliers z = filter (list_all isfinite) z"

text \<open>
  Modelled from the spec: \<^verbatim>\<open>calculate_fid\<close> of \<^verbatim>\<open>supervised_FCN_2.example_compute_FID\<close>
  is imported and its code is not among the sources. The specification: it estimates
  each set's mean vector and covariance matrix and computes the closed-form Frechet
  distance between the two Gaussian approximations; it "requires both sets to have
  \<open>\<ge> 2\<close> surviving rows after filtering (covariance undefined otherwise)" and "fails
  with an insufficient-data error if not". The estimation and the closed form are the
  parameter \<open>frechet\<close>.
\<close>

definition calculate_fid ::
  "(features \<Rightarrow> features \<Rightarrow> pyfloat) \<Rightarrow> features \<Rightarrow> features \<Rightarrow> error + pyfloat" where
  "calculate_fid frechet z1 z2 =
     (if length z1 < 2 \<or> length z2 < 2 then Inl InsufficientDataError
      else Inr (frechet z1 z2))"

text \<open>
  \<^verbatim>\<open>
  z1, z2 = remove_outliers(z1), remove_outliers(z2)
  fid = calculate_fid(z1, z2)
  return fid
  \<close>
\<close>

definition fid_score ::
  "(features \<Rightarrow> features \<Rightarrow> pyfloat) \<Rightarrow> features \<Rightarrow> features \<Rightarrow> error + pyfloat" where
  "fid_score frechet z1 z2 =
     calculate_fid frechet (remove_outliers z1) (remove_outliers z2)"

subsection \<open>\<^verbatim>\<open>inception_score\<close>\<close>

text \<open>
  The body of the loop (lines 289 and 290): \<^verbatim>\<open>self.fcn\<close> is read first, then the slice
  is classified and \<^verbatim>\<open>torch.softmax(..., dim=-1)\<close> is applied to each row.
\<close>

definition class_probabilities ::
  "'k collaborators \<Rightarrow> 'k evaluation \<Rightarrow> batch \<Rightarrow> error + features" where
  "class_probabilities ext ev x =
     (case fcn ev of
        None \<Rightarrow> Inl AttributeError
      | Some f \<Rightarrow>
          (case logits f x of
             Inl e \<Rightarrow> Inl e
           | Inr p_yx_g \<Rightarrow> Inr (map (softmax ext) p_yx_g)))"

text \<open>
  Lines 279 to 293: the concatenated class probabilities. The iteration count comes from
  \<^verbatim>\<open>self.X_test.shape[0]\<close>, the slices are taken from \<^verbatim>\<open>X_gen\<close>.
\<close>

definition p_yx_gen :: "'k collaborators \<Rightarrow> 'k evaluation \<Rightarrow> batch \<Rightarrow> error + features" where
  "p_yx_gen ext ev X_gen =
     (case n_iters_of (length (X_test ev)) (batch_size ev) of
        Inl e \<Rightarrow> Inl e
      | Inr n_iters \<Rightarrow>
          (case batch_loop (class_probabilities ext ev) X_gen (batch_size ev)
                  (py_range n_iters) of
             Inl e \<Rightarrow> Inl e
           | Inr ps \<Rightarrow> np_concatenate ps))"

definition inception_score ::
  "'k collaborators \<Rightarrow> 'k evaluation \<Rightarrow> batch \<Rightarrow> error + pyfloat \<times> pyfloat" where
  "inception_score ext ev X_gen =
     (case p_yx_gen ext ev X_gen of
        Inl e \<Rightarrow> Inl e
      | Inr p \<Rightarrow> calculate_inception_score ext p)"

subsection \<open>The constructor\<close>

record init_args =
  subset_dataset_name :: string
  input_length :: int
  n_classes :: int
  gpu_device_index :: int
  config_batch_size :: int
  use_fidelity_enhancer :: bool
  arg_feature_extractor_type :: string
  rocket_num_kernels :: int
  use_custom_dataset :: bool

text \<open>
  Lines 49 to 95: the attributes set before the first feature extraction.
  \<^verbatim>\<open>self.fcn\<close> is set only when \<^verbatim>\<open>use_custom_dataset\<close> is false, \<^verbatim>\<open>self.rocket_kernels\<close>
  only for the \<^verbatim>\<open>'rocket'\<close> extractor, and \<^verbatim>\<open>self.fidelity_enhancer\<close> is \<^verbatim>\<open>nn.Identity()\<close>
  unless \<^verbatim>\<open>use_fidelity_enhancer\<close> is true.
\<close>

definition init_attributes :: "'k collaborators \<Rightarrow> init_args \<Rightarrow> error + 'k evaluation" where
  "init_attributes ext a =
     (if arg_feature_extractor_type a \<notin> set [''supervised_fcn'', ''rocket'']
      then Inl AssertionError
      else
        (case (if \<not> use_custom_dataset a
               then map_sum id Some (load_pretrained_FCN ext (subset_dataset_name a))
               else Inr None) of
           Inl e \<Rightarrow> Inl e
         | Inr fcn_attr \<Rightarrow>
        (case (if arg_feature_extractor_type a = ''rocket''
               then map_sum id Some
                      (generate_kernels ext (input_length a) (rocket_num_kernels a))
               else Inr None) of
           Inl e \<Rightarrow> Inl e
         | Inr kernels_attr \<Rightarrow>
        (case (if \<not> use_custom_dataset a
               then DatasetImporterUCR ext (subset_dataset_name a)
               else DatasetImporterCustom ext) of
           Inl e \<Rightarrow> Inl e
         | Inr d \<Rightarrow>
        (case load_stage2 ext (subset_dataset_name a) of
           Inl e \<Rightarrow> Inl e
         | Inr _ \<Rightarrow>
        (case (if use_fidelity_enhancer a
               then map_sum id (\<lambda>(t, f). FidelityEnhancer t f)
                      (load_fidelity_enhancer ext (importer_ts_len d) (subset_dataset_name a))
               else Inr Identity) of
           Inl e \<Rightarrow> Inl e
         | Inr fe \<Rightarrow>
             Inr \<lparr> batch_size = config_batch_size a,
                   feature_extractor_type = arg_feature_extractor_type a,
                   fcn = fcn_attr,
                   rocket_kernels = kernels_attr,
                   X_train = importer_X_train d,
                   X_test = importer_X_test d,
                   ts_len = importer_ts_len d,
                   fidelity_enhancer = fe,
                   z_train = None,
                   z_test = None,
                   pca = None \<rparr>))))))"

text \<open>
  Lines 97 to 106: the features of both reference splits are computed with
  \<^verbatim>\<open>compute_z\<close>, and the projector is fitted on the filtered training features.
\<close>

definition init :: "'k collaborators \<Rightarrow> init_args \<Rightarrow> error + 'k evaluation" where
  "init ext a =
     (case init_attributes ext a of
        Inl e \<Rightarrow> Inl e
      | Inr ev0 \<Rightarrow>
          (case compute_z ext ev0 ''train'' of
             Inl e \<Rightarrow> Inl e
           | Inr zt \<Rightarrow>
               (case compute_z ext (ev0\<lparr>z_train := Some zt\<rparr>) ''test'' of
                  Inl e \<Rightarrow> Inl e
                | Inr zs \<Rightarrow>
                    (case fit_pca ext (remove_outliers zt) of
                       Inl e \<Rightarrow> Inl e
                     | Inr p \<Rightarrow>
                         Inr (ev0\<lparr>z_train := Some zt, z_test := Some zs, pca := Some p\<rparr>)))))"


section \<open>Visual inspection and telemetry\<close>

text \<open>
  What the logging methods act on: the figures that \<^verbatim>\<open>matplotlib\<close> holds open and the
  entries that the telemetry sink has accepted.
\<close>

datatype log_key = VisualComp string | PCAonZ "string list" | TSNEData | TSNELatent

record world =
  open_figures :: nat
  logged :: "log_key list"

text \<open>
  The services behind the logging methods. The random draws are indexed by the position
  of the call inside the method; \<^verbatim>\<open>wandb_log\<close> answers \<open>Some e\<close> when \<^verbatim>\<open>wandb.log\<close>
  raises \<open>e\<close> for the entry.
\<close>

record plot_env =
  np_random_randint :: "nat \<Rightarrow> nat \<Rightarrow> nat \<Rightarrow> error + nat list"
  np_random_choice :: "nat \<Rightarrow> nat \<Rightarrow> nat \<Rightarrow> error + nat list"
  wandb_log :: "log_key \<Rightarrow> error option"
  interpolate :: "batch \<Rightarrow> batch \<Rightarrow> error + batch"
  tsne_data_space :: "batch \<Rightarrow> error + features"
  tsne_latent_space :: "features \<Rightarrow> error + features"

text \<open>\<^verbatim>\<open>Z[i]\<close> and \<^verbatim>\<open>X[i, 0, :]\<close> for an index drawn at random.\<close>

definition get_row :: "'a list \<Rightarrow> nat \<Rightarrow> error + 'a" where
  "get_row Z i = (if i < length Z then Inr (Z ! i) else Inl IndexError)"

definition plot_series :: "batch \<Rightarrow> nat \<Rightarrow> error + series" where
  "plot_series X i =
     (case get_row X i of
        Inl e \<Rightarrow> Inl e
      | Inr smp \<Rightarrow> (case smp of [] \<Rightarrow> Inl IndexError | c # _ \<Rightarrow> Inr c))"

definition new_figure :: "world \<Rightarrow> world" where
  "new_figure w = w\<lparr>open_figures := open_figures w + 1\<rparr>"

definition plt_close :: "world \<Rightarrow> world" where
  "plt_close w = w\<lparr>open_figures := open_figures w - 1\<rparr>"

text \<open>
  \<^verbatim>\<open>wandb.log({key: wandb.Image(plt)})\<close> followed by \<^verbatim>\<open>plt.close()\<close>: no handler
  surrounds the call, so an exception of the sink leaves the method before the figure is
  closed.
\<close>

definition log_and_close :: "plot_env \<Rightarrow> log_key \<Rightarrow> world \<Rightarrow> (error + unit) \<times> world" where
  "log_and_close env key w =
     (case wandb_log env key of
        Some e \<Rightarrow> (Inl e, w)
      | None \<Rightarrow> (Inr (), plt_close (w\<lparr>logged := logged w @ [key]\<rparr>)))"

text \<open>
  \<^verbatim>\<open>log_visual_inspection\<close> (lines 298 to 318); \<^verbatim>\<open>ylim\<close> and \<^verbatim>\<open>alpha\<close> only style the
  axes.
\<close>

definition log_visual_inspection ::
  "plot_env \<Rightarrow> world \<Rightarrow> batch \<Rightarrow> batch \<Rightarrow> string \<Rightarrow> nat \<Rightarrow> (error + unit) \<times> world" where
  "log_visual_inspection env w X1 X2 title n_plot_samples =
     (case np_random_randint env 0 (length X1) n_plot_samples of
        Inl e \<Rightarrow> (Inl e, w)
      | Inr ind1 \<Rightarrow>
          (case rowwise (plot_series X1) ind1 of
             Inl e \<Rightarrow> (Inl e, new_figure w)
           | Inr lines1 \<Rightarrow>
               (case np_random_randint env 1 (length X2) n_plot_samples of
                  Inl e \<Rightarrow> (Inl e, new_figure w)
                | Inr ind2 \<Rightarrow>
                    (case rowwise (plot_series X2) ind2 of
                       Inl e \<Rightarrow> (Inl e, new_figure w)
                     | Inr lines2 \<Rightarrow>
                         log_and_close env (VisualComp title) (new_figure w)))))"

text \<open>
  The loop of \<^verbatim>\<open>log_pca\<close> (lines 344 to 353) over \<^verbatim>\<open>zip(Zs, labels)\<close>: draw indices,
  project the selected rows with the fitted projector, scatter them.
\<close>

fun pca_scatter_loop ::
  "plot_env \<Rightarrow> 'k evaluation \<Rightarrow> nat \<Rightarrow> nat \<Rightarrow> (features \<times> string) list \<Rightarrow> error + unit" where
  "pca_scatter_loop env ev n_plot_samples call [] = Inr ()"
| "pca_scatter_loop env ev n_plot_samples call ((Z, label) # rest) =
     (case np_random_choice env call (length Z) n_plot_samples of
        Inl e \<Rightarrow> Inl e
      | Inr ind \<Rightarrow>
          (case pca ev of
             None \<Rightarrow> Inl AttributeError
           | Some p \<Rightarrow>
               (case rowwise (get_row Z) ind of
                  Inl e \<Rightarrow> Inl e
                | Inr Zsel \<Rightarrow>
                    (case pca_transform p Zsel of
                       Inl e \<Rightarrow> Inl e
                     | Inr Z_embed \<Rightarrow>
                         pca_scatter_loop env ev n_plot_samples (call + 1) rest))))"

definition log_pca ::
  "plot_env \<Rightarrow> 'k evaluation \<Rightarrow> world \<Rightarrow> features list \<Rightarrow> string list \<Rightarrow> nat \<Rightarrow>
     (error + unit) \<times> world" where
  "log_pca env ev w Zs labels n_plot_samples =
     (if length Zs \<noteq> length labels then (Inl AssertionError, w)
      else
        case pca_scatter_loop env ev n_plot_samples 0 (zip Zs labels) of
          Inl e \<Rightarrow> (Inl e, new_figure w)
        | Inr _ \<Rightarrow> log_and_close env (PCAonZ labels) (new_figure w))"

text \<open>
  \<^verbatim>\<open>log_tsne\<close> (lines 360 to 389): the generated batch is interpolated to the length of
  the test series (\<open>interpolate\<close> reads it from the last axis of \<^verbatim>\<open>self.X_test\<close>), indices
  are drawn for both sets, and two embeddings are logged one after the other, the data
  space first. The \<^verbatim>\<open>squeeze()\<close> calls, which drop the channel axis, belong to the two
  embedding services.
\<close>

definition log_tsne ::
  "plot_env \<Rightarrow> 'k evaluation \<Rightarrow> world \<Rightarrow> nat \<Rightarrow> batch \<Rightarrow> features \<Rightarrow> features \<Rightarrow>
     (error + unit) \<times> world" where
  "log_tsne env ev w n_plot_samples X_gen zt zg =
     (case interpolate env X_gen (X_test ev) of
        Inl e \<Rightarrow> (Inl e, w)
      | Inr X_gen' \<Rightarrow>
     (case np_random_randint env 0 (length (X_test ev)) n_plot_samples of
        Inl e \<Rightarrow> (Inl e, w)
      | Inr sample_ind_test \<Rightarrow>
     (case np_random_randint env 1 (length X_gen') n_plot_samples of
        Inl e \<Rightarrow> (Inl e, w)
      | Inr sample_ind_gen \<Rightarrow>
     (case rowwise (get_row (X_test ev)) sample_ind_test of
        Inl e \<Rightarrow> (Inl e, w)
      | Inr Xa \<Rightarrow>
     (case rowwise (get_row X_gen') sample_ind_gen of
        Inl e \<Rightarrow> (Inl e, w)
      | Inr Xb \<Rightarrow>
     (case tsne_data_space env (Xa @ Xb) of
        Inl e \<Rightarrow> (Inl e, w)
      | Inr X_embedded \<Rightarrow>
     (let r1 = log_and_close env TSNEData (new_figure w); w1 = snd r1 in
      case fst r1 of
        Inl e \<Rightarrow> (Inl e, w1)
      | Inr _ \<Rightarrow>
     (case rowwise (get_row zt) sample_ind_test of
        Inl e \<Rightarrow> (Inl e, w1)
      | Inr Za \<Rightarrow>
     (case rowwise (get_row zg) sample_ind_gen of
        Inl e \<Rightarrow> (Inl e, w1)
      | Inr Zb \<Rightarrow>
     (case tsne_latent_space env (Za @ Zb) of
        Inl e \<Rightarrow> (Inl e, w1)
      | Inr Z_embedded \<Rightarrow> log_and_close env TSNELatent (new_figure w1)))))))))))"

section \<open>A kernel transform and a reference setting\<close>

text \<open>
  Modelled from the spec: \<^verbatim>\<open>apply_kernels\<close> of \<^verbatim>\<open>evaluation.rocket_functions\<close> is imported
  and its code is not among the sources. The specification: "a fixed, randomly-generated
  bank of convolution kernels [...] applied via a deterministic transform (per-kernel max
  and proportion-of-positive-values features) producing a 2 x (bank size)-dimensional
  vector per series". A kernel is its list of weights; a series with a non-finite value,
  or shorter than the kernel, gives not-a-number features.
\<close>

type_synonym kernel = "real list"

fun the_real :: "pyfloat \<Rightarrow> real" where
  "the_real (Finite r) = r"
| "the_real PosInf = 0"
| "the_real NegInf = 0"
| "the_real NaN = 0"

definition convolve :: "kernel \<Rightarrow> real list \<Rightarrow> real list" where
  "convolve wts xs =
     map (\<lambda>t. sum_list (map (\<lambda>(a, b). a * b) (zip wts (drop t xs))))
       [0..<Suc (length xs) - length wts]"

definition kernel_features :: "kernel \<Rightarrow> series \<Rightarrow> pyfloat list" where
  "kernel_features wts s =
     (if \<not> list_all isfinite s then [NaN, NaN]
      else
        case convolve wts (map the_real s) of
          [] \<Rightarrow> [NaN, NaN]
        | v # vs \<Rightarrow>
            [Finite (fold max vs v),
             Finite (real (length (filter (\<lambda>u. 0 < u) (v # vs))) / real (length (v # vs)))])"

definition apply_kernels_spec :: "series list \<Rightarrow> kernel list \<Rightarrow> error + features" where
  "apply_kernels_spec x K = Inr (map (\<lambda>s. concat (map (\<lambda>wts. kernel_features wts s) K)) x)"

text \<open>
  A concrete setting on which the statements below are evaluated: a reference corpus of
  three training and two test series of length two, a bank of one kernel, a classifier
  that returns the flattened sample, and services that succeed.
\<close>

definition ex_series :: "real \<Rightarrow> real \<Rightarrow> sample" where
  "ex_series a b = [[Finite a, Finite b]]"

definition ex_dataset :: dataset where
  "ex_dataset =
     \<lparr> importer_X_train = [ex_series 1 2, ex_series 3 4, ex_series (-1) 0],
       importer_X_test = [ex_series 5 6, ex_series 0 1],
       importer_Y_train = [0, 1, 0],
       importer_Y_test = [1, 0],
       importer_ts_len = 2 \<rparr>"

definition ex_fcn :: fcn_model where
  "ex_fcn = \<lparr> feature_vector = (\<lambda>x. Inr (map concat x)), logits = (\<lambda>x. Inr (map concat x)) \<rparr>"

definition ex_pca :: pca_model where
  "ex_pca =
     \<lparr> pca_transform = (\<lambda>z. Inr z),
       xmin_pca = Finite 0, xmax_pca = Finite 1, ymin_pca = Finite 0, ymax_pca = Finite 1 \<rparr>"

definition ex_generated :: batch where
  "ex_generated = [ex_series 7 8, ex_series 9 10, ex_series 11 12]"

definition ex_ext :: "kernel list collaborators" where
  "ex_ext =
     \<lparr> apply_kernels = apply_kernels_spec,
       generate_kernels = (\<lambda>l n. Inr [[1]]),
       load_pretrained_FCN = (\<lambda>name. Inr ex_fcn),
       DatasetImporterUCR = (\<lambda>name. Inr ex_dataset),
       DatasetImporterCustom = Inr ex_dataset,
       load_stage2 = (\<lambda>name. Inr ()),
       load_fidelity_enhancer = (\<lambda>l name. Inr (Finite 1, (\<lambda>x. Inr x))),
       fit_pca = (\<lambda>z. Inr ex_pca),
       unconditional_sample = (\<lambda>n bs. Inr (ex_generated, ex_generated, ex_generated)),
       conditional_sample = (\<lambda>n c bs. Inr (ex_generated, ex_generated, ex_generated)),
       to_device = (\<lambda>x. Inr x),
       svq_augment = (\<lambda>t x. Inr x),
       calculate_inception_score = (\<lambda>p. Inr (Finite (real (length p)), Finite 0)),
       softmax = (\<lambda>row. row) \<rparr>"

definition ex_args :: init_args where
  "ex_args =
     \<lparr> subset_dataset_name = ''Wafer'',
       input_length = 2,
       n_classes = 2,
       gpu_device_index = 0,
       config_batch_size = 2,
       use_fidelity_enhancer = False,
       arg_feature_extractor_type = ''rocket'',
       rocket_num_kernels = 1,
       use_custom_dataset = False \<rparr>"

definition ex_ev :: "kernel list evaluation" where
  "ex_ev =
     \<lparr> batch_size = 2,
       feature_extractor_type = ''rocket'',
       fcn = Some ex_fcn,
       rocket_kernels = Some [[1]],
       X_train = importer_X_train ex_dataset,
       X_test = importer_X_test ex_dataset,
       ts_len = 2,
       fidelity_enhancer = Identity,
       z_train = Some [[Finite 2, Finite 1], [Finite 4, Finite 1], [Finite 0, Finite 0]],
       z_test = Some [[Finite 6, Finite 1], [Finite 1, Finite (1 / 2)]],
       pca = Some ex_pca \<rparr>"

text \<open>A batch of one sample with two channels.\<close>

definition ex_two_channels :: batch where
  "ex_two_channels = [[[Finite 1, Finite 2], [Finite 30, Finite 40]]]"

text \<open>A telemetry sink that refuses every entry, and index draws that always pick row 0.\<close>

definition ex_failing_env :: plot_env where
  "ex_failing_env =
     \<lparr> np_random_randint =
         (\<lambda>call high n. if high = 0 then Inl ValueError else Inr (replicate n 0)),
       np_random_choice =
         (\<lambda>call high n. if high = 0 \<and> 0 < n then Inl ValueError else Inr (replicate n 0)),
       wandb_log = (\<lambda>key. Some (CollaboratorError ''wandb'')),
       interpolate = (\<lambda>x l. Inr x),
       tsne_data_space = (\<lambda>x. Inr (map concat x)),
       tsne_latent_space = (\<lambda>z. Inr z) \<rparr>"

definition ex_world :: world where
  "ex_world = \<lparr> open_figures = 0, logged = [] \<rparr>"

text \<open>The feature row of one sample under the one-kernel bank of the reference setting.\<close>

definition ex_row :: "sample \<Rightarrow> error + pyfloat list" where
  "ex_row smp = (case smp of [] \<Rightarrow> Inl IndexError | c # _ \<Rightarrow> Inr (kernel_features [1] c))"

text \<open>The same setting with a custom dataset, for either extractor.\<close>

definition ex_args_custom :: init_args where
  "ex_args_custom = ex_args\<lparr>use_custom_dataset := True\<rparr>"

definition ex_args_custom_fcn :: init_args where
  "ex_args_custom_fcn =
     ex_args\<lparr>use_custom_dataset := True, arg_feature_extractor_type := ''supervised_fcn''\<rparr>"

text \<open>
  A stand-in for the numerical part of the distance on the reference setting: it only
  counts the rows that it is given.
\<close>

definition ex_frechet :: "features \<Rightarrow> features \<Rightarrow> pyfloat" where
  "ex_frechet z1 z2 = Finite (real (length z1) + real (length z2))"

text \<open>The same services with a telemetry sink that accepts every entry.\<close>

definition ex_accepting_env :: plot_env where
  "ex_accepting_env = ex_failing_env\<lparr>wandb_log := (\<lambda>key. None)\<rparr>"

text \<open>The reference setting on a host where the device is not available.\<close>

definition ex_ext_no_device :: "kernel list collaborators" where
  "ex_ext_no_device = ex_ext\<lparr>to_device := (\<lambda>x. Inl (CollaboratorError ''device''))\<rparr>"

section \<open>Slices and the batching driver\<close>

lemma py_slice_pos:
  assumes "0 < bs"
  shows "py_slice X (int i * bs) ((int i + 1) * bs) = take (nat bs) (drop (i * nat bs) X)"
proof -
  have nn: "\<not> int i * bs < 0" "\<not> (int i + 1) * bs < 0"
    using assms by (simp_all add: not_less)
  have lo: "clamp_index (int i * bs) (length X) = min (i * nat bs) (length X)"
    using assms nn(1) by (simp add: clamp_index_def nat_mult_distrib)
  have hi: "clamp_index ((int i + 1) * bs) (length X) = min ((i + 1) * nat bs) (length X)"
    using assms nn(2) by (simp add: clamp_index_def nat_mult_distrib nat_add_distrib)
  show ?thesis
  proof (cases "i * nat bs \<le> length X")
    case True
    then show ?thesis unfolding py_slice_def Let_def lo hi
      by (simp add: min_def)
  next
    case False
    then show ?thesis unfolding py_slice_def Let_def lo hi
      by (simp add: min_def)
  qed
qed

lemma batch_loop_rowwise:
  "batch_loop fn X bs idx = rowwise (\<lambda>i. fn (py_slice X (int i * bs) ((int i + 1) * bs))) idx"
  by (induction idx) (simp_all split: sum.splits)

lemma rowwise_map: "rowwise g (map h xs) = rowwise (\<lambda>x. g (h x)) xs"
  by (induction xs) (simp_all split: sum.splits)

lemma rowwise_append:
  "rowwise g (xs @ ys) =
     (case rowwise g xs of Inl e \<Rightarrow> Inl e
      | Inr a \<Rightarrow> (case rowwise g ys of Inl e \<Rightarrow> Inl e | Inr b \<Rightarrow> Inr (a @ b)))"
  by (induction xs) (simp_all split: sum.splits)

lemma rowwise_concat:
  "rowwise g (concat xss) =
     (case rowwise (rowwise g) xss of Inl e \<Rightarrow> Inl e | Inr zss \<Rightarrow> Inr (concat zss))"
  by (induction xss) (simp_all add: rowwise_append split: sum.splits)

lemma concat_slices_take:
  "concat (map (\<lambda>i. take b (drop (i * b) X)) [0..<k]) = take (k * b) X"
proof (induction k)
  case 0
  show ?case by simp
next
  case (Suc k)
  have "take (k * b + b) X = take (k * b) X @ take b (drop (k * b) X)"
    by (simp add: take_add)
  with Suc show ?case by (simp add: add.commute)
qed

lemma n_iters_pos:
  assumes "0 < bs"
  shows "n_iters_of n bs = Inr (int (n div nat bs + (if n mod nat bs > 0 then 1 else 0)))"
proof -
  define b where "b = nat bs"
  have b: "bs = int b" "0 < b" using assms by (simp_all add: b_def)
  have d: "int n div int b = int (n div b)" by (simp add: zdiv_int)
  have m: "int n mod int b = int (n mod b)" by (simp add: zmod_int)
  show ?thesis
    unfolding n_iters_of_def b d m using b(2) by simp
qed

lemma ceil_cover:
  fixes n b :: nat
  assumes "0 < b"
  defines "k \<equiv> n div b + (if n mod b > 0 then 1 else 0)"
  shows "n \<le> k * b" and "0 < n \<Longrightarrow> (k - 1) * b < n" and "int k = \<lceil>real n / real b\<rceil>"
    and "(n = 0) = (k = 0)"
proof -
  have dm: "n = n div b * b + n mod b" by simp
  have ml: "n mod b < b" using assms by simp
  show c1: "n \<le> k * b"
  proof (cases "n mod b > 0")
    case True
    then have "k * b = n div b * b + b" by (simp add: k_def)
    with dm ml show ?thesis by linarith
  next
    case False
    then have "k * b = n div b * b" "n mod b = 0" by (simp_all add: k_def)
    with dm show ?thesis by linarith
  qed
  show c2: "(k - 1) * b < n" if "0 < n"
  proof (cases "n mod b > 0")
    case True
    then have "(k - 1) * b = n div b * b" by (simp add: k_def)
    with dm True show ?thesis by linarith
  next
    case False
    then have m0: "n mod b = 0" and kd: "k = n div b" by (simp_all add: k_def)
    have "0 < n div b" using that dm m0 by (cases "n div b") simp_all
    then have "(k - 1) * b + b = n div b * b" unfolding kd
      by (cases "n div b") simp_all
    with dm m0 assms show ?thesis by linarith
  qed
  show z: "(n = 0) = (k = 0)"
    using assms by (cases "n = 0") (auto simp: k_def div_eq_0_iff)
  show "int k = \<lceil>real n / real b\<rceil>"
  proof (rule sym, rule ceiling_unique)
    have "real n \<le> real (k * b)" using c1 by (simp only: of_nat_le_iff)
    then show "real n / real b \<le> of_int (int k)"
      using assms by (simp add: field_simps)
    show "of_int (int k) - 1 < real n / real b"
    proof (cases "0 < n")
      case True
      then have "real ((k - 1) * b) < real n" using c2 by (simp only: of_nat_less_iff)
      moreover have "1 \<le> k" using True z by simp
      ultimately show ?thesis using assms by (simp add: field_simps)
    next
      case False
      then show ?thesis using z by simp
    qed
  qed
qed


lemma batch_slices_pos:
  assumes "0 < bs"
  shows "batch_slices X bs (int k) = map (\<lambda>i. take (nat bs) (drop (i * nat bs) X)) [0..<k]"
  using assms by (simp add: batch_slices_def py_range_def py_slice_pos)

lemma batch_loop_slices:
  "batch_loop fn X bs (py_range n) = rowwise fn (batch_slices X bs n)"
  by (simp add: batch_loop_rowwise batch_slices_def rowwise_map)

lemma concat_batch_slices:
  assumes "0 < bs"
  shows "concat (batch_slices X bs (int (ceil_iters (length X) (nat bs)))) = X"
proof -
  have "length X \<le> ceil_iters (length X) (nat bs) * nat bs"
    unfolding ceil_iters_def using assms by (intro ceil_cover(1)) simp
  then show ?thesis
    using assms by (simp add: batch_slices_pos concat_slices_take)
qed

lemma rowwise_Nil_iff: "rowwise g xs = Inr [] \<longleftrightarrow> xs = []"
  by (cases xs) (simp_all split: sum.splits)

lemma run_batches_rowwise:
  assumes "0 < bs"
  shows "run_batches (rowwise g) X bs = (if X = [] then Inl ValueError else rowwise g X)"
proof -
  define k where "k = ceil_iters (length X) (nat bs)"
  have it: "n_iters_of (length X) bs = Inr (int k)"
    using n_iters_pos [OF assms, of "length X"] by (simp add: k_def ceil_iters_def)
  have cc: "concat (batch_slices X bs (int k)) = X"
    unfolding k_def by (rule concat_batch_slices [OF assms])
  have k0: "(X = []) = (k = 0)"
    using ceil_cover(4) [of "nat bs" "length X"] assms by (simp add: k_def ceil_iters_def)
  have rw: "rowwise g X =
      (case rowwise (rowwise g) (batch_slices X bs (int k)) of
         Inl e \<Rightarrow> Inl e | Inr zss \<Rightarrow> Inr (concat zss))"
    using rowwise_concat [of g "batch_slices X bs (int k)"] by (simp only: cc)
  show ?thesis
  proof (cases "X = []")
    case True
    then have "k = 0" using k0 by simp
    then show ?thesis using True it
      by (simp add: run_batches_def py_range_def np_concatenate_def)
  next
    case False
    then have kp: "k \<noteq> 0" using k0 by simp
    have ne: "batch_slices X bs (int k) \<noteq> []"
      using kp by (simp add: batch_slices_def py_range_def)
    have nz: "rowwise (rowwise g) (batch_slices X bs (int k)) = Inr zss \<Longrightarrow> zss \<noteq> []" for zss
      using ne rowwise_Nil_iff [of "rowwise g" "batch_slices X bs (int k)"] by auto
    show ?thesis using False nz
      by (simp add: run_batches_def it batch_loop_slices rw np_concatenate_def split: sum.splits)
  qed
qed


lemma rowwise_Inr_nth:
  "rowwise g X = Inr zs \<Longrightarrow> length zs = length X \<and> (\<forall>j<length X. g (X ! j) = Inr (zs ! j))"
proof (induction X arbitrary: zs)
  case Nil
  then show ?case by simp
next
  case (Cons r rs)
  from Cons.prems obtain z zs' where gz: "g r = Inr z" and rz: "rowwise g rs = Inr zs'" and zs: "zs = z # zs'"
    by (auto split: sum.splits)
  from Cons.IH [OF rz] have len: "length zs' = length rs"
    and nth: "\<And>j. j < length rs \<Longrightarrow> g (rs ! j) = Inr (zs' ! j)" by simp_all
  show ?case
  proof (intro conjI allI impI)
    show "length zs = length (r # rs)" using len zs by simp
    fix j assume "j < length (r # rs)"
    then show "g ((r # rs) ! j) = Inr (zs ! j)"
      using gz nth zs by (cases j) simp_all
  qed
qed

lemma extract_batch_size [simp]:
  "extract_feature_representations ext (ev\<lparr>batch_size := b\<rparr>) = extract_feature_representations ext ev"
  by (rule ext) (simp add: extract_feature_representations_def split: sum.splits option.splits)

lemma select_split_batch_size [simp]:
  "select_split (ev\<lparr>batch_size := b\<rparr>) kind = select_split ev kind"
  by (simp add: select_split_def)

lemma run_batches_slices:
  assumes "0 < bs"
  shows "run_batches fn X bs =
     (case rowwise fn (batch_slices X bs (int (ceil_iters (length X) (nat bs)))) of
        Inl e \<Rightarrow> Inl e | Inr zs \<Rightarrow> np_concatenate zs)"
  using n_iters_pos [OF assms, of "length X"]
  by (simp add: run_batches_def ceil_iters_def batch_loop_slices)

lemma channel0_rowwise:
  "channel0 x = rowwise (\<lambda>smp. case smp of [] \<Rightarrow> Inl IndexError | c # _ \<Rightarrow> Inr c) x"
  by (induction x rule: channel0.induct) (simp_all split: sum.splits)

lemma rowwise_then_map:
  "rowwise (\<lambda>r. case g r of Inl e \<Rightarrow> Inl e | Inr y \<Rightarrow> Inr (h y)) x =
     (case rowwise g x of Inl e \<Rightarrow> Inl e | Inr ys \<Rightarrow> Inr (map h ys))"
  by (induction x) (simp_all split: sum.splits)

lemma rocket_rowwise:
  assumes "feature_extractor_type ev = ''rocket''" and "rocket_kernels ev = Some K"
    and "\<forall>x. apply_kernels ext x K = Inr (map h x)"
  shows "extract_feature_representations ext ev x =
     rowwise (\<lambda>smp. case smp of [] \<Rightarrow> Inl IndexError | c # _ \<Rightarrow> Inr (h c)) x"
proof -
  have "extract_feature_representations ext ev x =
      (case channel0 x of Inl e \<Rightarrow> Inl e | Inr x0 \<Rightarrow> Inr (map h x0))"
    using assms by (simp add: extract_feature_representations_def split: sum.splits)
  also have "\<dots> = rowwise (\<lambda>smp. case (case smp of [] \<Rightarrow> Inl IndexError | c # _ \<Rightarrow> Inr c) of
                                 Inl e \<Rightarrow> Inl e | Inr y \<Rightarrow> Inr (h y)) x"
    by (simp only: channel0_rowwise rowwise_then_map [symmetric])
  also have "\<dots> = rowwise (\<lambda>smp. case smp of [] \<Rightarrow> Inl IndexError | c # _ \<Rightarrow> Inr (h c)) x"
    by (intro arg_cong2 [where f = rowwise] ext refl) (simp split: list.splits)
  finally show ?thesis .
qed

lemma ex_extract_rowwise:
  "extract_feature_representations ex_ext ex_ev x = rowwise ex_row x"
proof -
  have k: "\<forall>x. apply_kernels ex_ext x [[1]] = Inr (map (kernel_features [1]) x)"
    by (simp add: ex_ext_def apply_kernels_spec_def)
  have "extract_feature_representations ex_ext ex_ev x =
     rowwise (\<lambda>smp. case smp of [] \<Rightarrow> Inl IndexError | c # _ \<Rightarrow> Inr (kernel_features [1] c)) x"
    by (rule rocket_rowwise [OF _ _ k]) (simp_all add: ex_ev_def)
  then show ?thesis
    by (simp add: ex_row_def [abs_def])
qed

lemma ex_rows:
  "rowwise ex_row ex_generated = Inr [[Finite 8, Finite 1], [Finite 10, Finite 1], [Finite 12, Finite 1]]"
  by (simp add: ex_row_def ex_generated_def ex_series_def kernel_features_def convolve_def upt_rec)

section \<open>Batch invariance\<close>

text \<open>
  Claim C1. For any two positive batch sizes, the batched feature extraction of
  \<^verbatim>\<open>compute_z\<close> and of \<^verbatim>\<open>compute_z_gen\<close> gives the same concatenated output (or the
  same exception), provided that the per-slice extraction maps each row on its own. On an
  input with at least one row the output is the row-by-row extraction of the whole input.
\<close>

theorem batch_invariance:
  assumes "0 < b1" and "0 < b2"
    and "\<forall>x. extract_feature_representations ext ev x = rowwise g x"
  shows "compute_z_gen ext (ev\<lparr>batch_size := b1\<rparr>) X = compute_z_gen ext (ev\<lparr>batch_size := b2\<rparr>) X
       \<and> compute_z ext (ev\<lparr>batch_size := b1\<rparr>) kind = compute_z ext (ev\<lparr>batch_size := b2\<rparr>) kind
       \<and> (X \<noteq> [] \<longrightarrow> compute_z_gen ext (ev\<lparr>batch_size := b1\<rparr>) X = rowwise g X)"
proof -
  have fn: "extract_feature_representations ext ev = rowwise g"
    using assms(3) by (intro ext) simp
  show ?thesis
    by (simp add: compute_z_gen_def compute_z_def fn run_batches_rowwise assms(1,2)
        split: sum.splits)
qed

theorem batch_invariance_witness:
  "(0::int) < 1 \<and> (0::int) < 2
   \<and> (\<forall>x. extract_feature_representations ex_ext ex_ev x = rowwise ex_row x)
   \<and> compute_z_gen ex_ext (ex_ev\<lparr>batch_size := 1\<rparr>) ex_generated
       = compute_z_gen ex_ext (ex_ev\<lparr>batch_size := 2\<rparr>) ex_generated
   \<and> compute_z ex_ext (ex_ev\<lparr>batch_size := 1\<rparr>) ''train''
       = compute_z ex_ext (ex_ev\<lparr>batch_size := 2\<rparr>) ''train''
   \<and> compute_z_gen ex_ext (ex_ev\<lparr>batch_size := 1\<rparr>) ex_generated
       = Inr [[Finite 8, Finite 1], [Finite 10, Finite 1], [Finite 12, Finite 1]]"
proof -
  have h: "\<forall>x. extract_feature_representations ex_ext ex_ev x = rowwise ex_row x"
    by (simp add: ex_extract_rowwise)
  have ne: "ex_generated \<noteq> []"
    by (simp add: ex_generated_def)
  have p1: "(0::int) < 1" and p2: "(0::int) < 2" by simp_all
  note inv = batch_invariance [OF p1 p2 h, of ex_generated "''train''"]
  have a: "compute_z_gen ex_ext (ex_ev\<lparr>batch_size := 1\<rparr>) ex_generated
       = compute_z_gen ex_ext (ex_ev\<lparr>batch_size := 2\<rparr>) ex_generated"
    by (rule inv [THEN conjunct1])
  have b: "compute_z ex_ext (ex_ev\<lparr>batch_size := 1\<rparr>) ''train''
       = compute_z ex_ext (ex_ev\<lparr>batch_size := 2\<rparr>) ''train''"
    by (rule inv [THEN conjunct2, THEN conjunct1])
  have c: "compute_z_gen ex_ext (ex_ev\<lparr>batch_size := 1\<rparr>) ex_generated
       = Inr [[Finite 8, Finite 1], [Finite 10, Finite 1], [Finite 12, Finite 1]]"
    using inv [THEN conjunct2, THEN conjunct2] ne by (simp add: ex_rows)
  show ?thesis
    by (intro conjI p1 p2 h a b c)
qed

lemma slice_lengths:
  fixes b :: nat
  assumes "0 < b" and "i < ceil_iters (length X) b"
  shows "take b (drop (i * b) X) \<noteq> []"
    and "length (take b (drop (i * b) X)) \<le> b"
    and "Suc i < ceil_iters (length X) b \<Longrightarrow> length (take b (drop (i * b) X)) = b"
proof -
  define k where "k = ceil_iters (length X) b"
  have kdef: "k = length X div b + (if length X mod b > 0 then 1 else 0)"
    by (simp add: k_def ceil_iters_def)
  have pos: "0 < length X"
    using assms(2) ceil_cover(4) [OF assms(1), of "length X"] by (auto simp: ceil_iters_def)
  have lt: "(k - 1) * b < length X"
    unfolding kdef by (rule ceil_cover(2) [OF assms(1) pos])
  have "i \<le> k - 1" using assms(2) by (simp add: k_def)
  then have "i * b \<le> (k - 1) * b" by (rule mult_le_mono1)
  with lt have ib: "i * b < length X" by linarith
  then show "take b (drop (i * b) X) \<noteq> []" using assms(1) by simp
  show "length (take b (drop (i * b) X)) \<le> b" by simp
  show "length (take b (drop (i * b) X)) = b" if "Suc i < ceil_iters (length X) b"
  proof -
    have "Suc i \<le> k - 1" using that by (simp add: k_def)
    then have "Suc i * b \<le> (k - 1) * b" by (rule mult_le_mono1)
    with lt have "i * b + b < length X" by simp
    then show ?thesis by simp
  qed
qed

section \<open>The partition made by the batching driver\<close>

text \<open>
  Claim C7. For an input of \<open>N \<ge> 1\<close> rows and a positive batch size \<open>b\<close>, the driver of
  \<^verbatim>\<open>compute_z\<close> runs \<open>ceil (N / b)\<close> iterations; its slices are contiguous and disjoint
  (slice \<open>i\<close> is the rows from \<open>i * b\<close> up to \<open>(i + 1) * b\<close>), none is empty, only the last
  may be shorter than \<open>b\<close>, and together they are the input in its order. Whatever the
  per-slice function is, the driver applies it to exactly these slices, in this order,
  stops at the first one that fails and otherwise returns the concatenation of the
  per-slice results in the same order. With a per-slice extraction that maps each row on
  its own, the output therefore has one feature row per input row, at the same position.
\<close>

theorem compute_z_partition:
  assumes "0 < bs" and "X \<noteq> []" and "batch_size ev = bs" and "select_split ev kind = Inr X"
  shows "let n_iters = \<lceil>real (length X) / real_of_int bs\<rceil>;
             slices = batch_slices X bs n_iters
         in n_iters_of (length X) bs = Inr n_iters
         \<and> int (length slices) = n_iters
         \<and> concat slices = X
         \<and> (\<forall>i<length slices. slices ! i = take (nat bs) (drop (i * nat bs) X)
               \<and> slices ! i \<noteq> []
               \<and> length (slices ! i) \<le> nat bs
               \<and> (Suc i < length slices \<longrightarrow> length (slices ! i) = nat bs))
         \<and> run_batches fn X bs =
             (case rowwise fn slices of Inl e \<Rightarrow> Inl e | Inr zs \<Rightarrow> Inr (concat zs))
         \<and> compute_z ext ev kind =
             (case rowwise (extract_feature_representations ext ev) slices of
                Inl e \<Rightarrow> Inl e | Inr zs \<Rightarrow> Inr (concat zs))
         \<and> ((\<forall>x. extract_feature_representations ext ev x = rowwise g x) \<longrightarrow>
               compute_z ext ev kind = rowwise g X
             \<and> (\<forall>zs. compute_z ext ev kind = Inr zs \<longrightarrow>
                   length zs = length X \<and> (\<forall>j<length X. g (X ! j) = Inr (zs ! j))))"
proof -
  define b where "b = nat bs"
  define k where "k = ceil_iters (length X) b"
  define slices where "slices = batch_slices X bs (int k)"
  have bpos: "0 < b" and bs: "bs = int b" using assms(1) by (simp_all add: b_def)
  have it: "n_iters_of (length X) bs = Inr (int k)"
    using n_iters_pos [OF assms(1), of "length X"] by (simp add: k_def b_def ceil_iters_def)
  have ce: "int k = \<lceil>real (length X) / real_of_int bs\<rceil>"
    using ceil_cover(3) [OF bpos, of "length X"] by (simp add: k_def ceil_iters_def bs)
  have sl: "slices = map (\<lambda>i. take b (drop (i * b) X)) [0..<k]"
    unfolding slices_def b_def by (rule batch_slices_pos [OF assms(1)])
  have len: "length slices = k" by (simp add: sl)
  have ilen: "int (length slices) = int k" by (simp add: len)
  have kpos: "k \<noteq> 0"
    using ceil_cover(4) [OF bpos, of "length X"] assms(2) by (simp add: k_def ceil_iters_def)
  have cc: "concat slices = X"
    unfolding slices_def k_def b_def by (rule concat_batch_slices [OF assms(1)])
  have each: "\<forall>i<length slices. slices ! i = take (nat bs) (drop (i * nat bs) X)
               \<and> slices ! i \<noteq> []
               \<and> length (slices ! i) \<le> nat bs
               \<and> (Suc i < length slices \<longrightarrow> length (slices ! i) = nat bs)"
  proof (intro allI impI)
    fix i assume "i < length slices"
    then have ik: "i < ceil_iters (length X) b" by (simp add: len k_def)
    have nth: "slices ! i = take b (drop (i * b) X)"
      using ik by (simp add: sl k_def)
    show "slices ! i = take (nat bs) (drop (i * nat bs) X)
               \<and> slices ! i \<noteq> []
               \<and> length (slices ! i) \<le> nat bs
               \<and> (Suc i < length slices \<longrightarrow> length (slices ! i) = nat bs)"
      unfolding nth len b_def [symmetric] k_def
      using slice_lengths [OF bpos ik] by blast
  qed
  have run: "run_batches f X bs =
             (case rowwise f slices of Inl e \<Rightarrow> Inl e | Inr zs \<Rightarrow> Inr (concat zs))"
    for f :: "batch \<Rightarrow> error + 'z list"
  proof -
    have nz: "rowwise f slices = Inr zs \<Longrightarrow> zs \<noteq> []" for zs
      using rowwise_Inr_nth [of f slices zs] len kpos by auto
    have "run_batches f X bs =
             (case rowwise f slices of Inl e \<Rightarrow> Inl e | Inr zs \<Rightarrow> np_concatenate zs)"
      unfolding slices_def k_def b_def by (rule run_batches_slices [OF assms(1)])
    then show ?thesis using nz by (simp add: np_concatenate_def split: sum.splits)
  qed
  have cz: "compute_z ext ev kind = run_batches (extract_feature_representations ext ev) X bs"
    by (simp add: compute_z_def assms(3,4))
  have run1: "compute_z ext ev kind =
             (case rowwise (extract_feature_representations ext ev) slices of
                Inl e \<Rightarrow> Inl e | Inr zs \<Rightarrow> Inr (concat zs))"
    unfolding cz by (rule run)
  have rows: "(\<forall>x. extract_feature_representations ext ev x = rowwise g x) \<longrightarrow>
               compute_z ext ev kind = rowwise g X
             \<and> (\<forall>zs. compute_z ext ev kind = Inr zs \<longrightarrow>
                   length zs = length X \<and> (\<forall>j<length X. g (X ! j) = Inr (zs ! j)))"
  proof
    assume h: "\<forall>x. extract_feature_representations ext ev x = rowwise g x"
    have fn: "extract_feature_representations ext ev = rowwise g"
      using h by (intro ext) simp
    have run2: "compute_z ext ev kind = rowwise g X"
      unfolding cz fn using assms(2) by (simp add: run_batches_rowwise [OF assms(1)])
    show "compute_z ext ev kind = rowwise g X
             \<and> (\<forall>zs. compute_z ext ev kind = Inr zs \<longrightarrow>
                   length zs = length X \<and> (\<forall>j<length X. g (X ! j) = Inr (zs ! j)))"
      unfolding run2 using rowwise_Inr_nth [of g X] by blast
  qed
  show ?thesis
    unfolding Let_def ce [symmetric] slices_def [symmetric]
    by (intro conjI it ilen cc each run run1 rows)
qed

lemma ex_train_rows:
  "rowwise ex_row (importer_X_train ex_dataset)
     = Inr [[Finite 2, Finite 1], [Finite 4, Finite 1], [Finite 0, Finite 0]]"
  by (simp add: ex_row_def ex_dataset_def ex_series_def kernel_features_def convolve_def upt_rec)

theorem compute_z_partition_witness:
  "(0::int) < 2 \<and> importer_X_train ex_dataset \<noteq> [] \<and> batch_size ex_ev = 2
   \<and> select_split ex_ev ''train'' = Inr (importer_X_train ex_dataset)
   \<and> (\<forall>x. extract_feature_representations ex_ext ex_ev x = rowwise ex_row x)
   \<and> n_iters_of (length (importer_X_train ex_dataset)) 2 = Inr 2
   \<and> batch_slices (importer_X_train ex_dataset) 2 2
       = [[ex_series 1 2, ex_series 3 4], [ex_series (-1) 0]]
   \<and> run_batches (\<lambda>x. Inr [length x]) (importer_X_train ex_dataset) 2 = Inr [2, 1]
   \<and> compute_z ex_ext ex_ev ''train''
       = Inr [[Finite 2, Finite 1], [Finite 4, Finite 1], [Finite 0, Finite 0]]"
proof -
  have h1: "(0::int) < 2" by simp
  have h2: "importer_X_train ex_dataset \<noteq> []" by (simp add: ex_dataset_def)
  have h3: "batch_size ex_ev = 2" by (simp add: ex_ev_def)
  have h4: "select_split ex_ev ''train'' = Inr (importer_X_train ex_dataset)"
    by (simp add: select_split_def ex_ev_def)
  have h5: "\<forall>x. extract_feature_representations ex_ext ex_ev x = rowwise ex_row x"
    by (simp add: ex_extract_rowwise)
  have c: "\<lceil>real (length (importer_X_train ex_dataset)) / real_of_int 2\<rceil> = 2"
    by (simp add: ex_dataset_def)
  have s: "batch_slices (importer_X_train ex_dataset) 2 2
       = [[ex_series 1 2, ex_series 3 4], [ex_series (-1) 0]]"
    by (simp add: batch_slices_def py_range_def py_slice_def clamp_index_def ex_dataset_def upt_rec)
  note p = compute_z_partition [OF h1 h2 h3 h4, of "\<lambda>x. Inr [length x]" ex_ext ex_row,
      unfolded Let_def c]
  have a: "n_iters_of (length (importer_X_train ex_dataset)) 2 = Inr 2"
    by (rule p [THEN conjunct1])
  have r: "run_batches (\<lambda>x. Inr [length x]) (importer_X_train ex_dataset) 2 = Inr [2, 1]"
  proof -
    have "run_batches (\<lambda>x. Inr [length x]) (importer_X_train ex_dataset) 2 =
        (case rowwise (\<lambda>x. Inr [length x]) (batch_slices (importer_X_train ex_dataset) 2 2) of
           Inl e \<Rightarrow> Inl e | Inr zs \<Rightarrow> Inr (concat zs))"
      using p by blast
    then show ?thesis by (simp add: s)
  qed
  have z: "compute_z ex_ext ex_ev ''train''
       = Inr [[Finite 2, Finite 1], [Finite 4, Finite 1], [Finite 0, Finite 0]]"
  proof -
    have "compute_z ex_ext ex_ev ''train'' = rowwise ex_row (importer_X_train ex_dataset)"
      using p h5 by blast
    then show ?thesis by (simp only: ex_train_rows)
  qed
  show ?thesis
    by (intro conjI h1 h2 h3 h4 h5 a s r z)
qed



lemma batch_loop_Nil_iff:
  "batch_loop fn X bs idx = Inr [] \<longleftrightarrow> idx = []"
  by (cases idx) (simp_all split: sum.splits)



section \<open>The rows that the inception score sees\<close>



section \<open>What a constructed evaluation object satisfies\<close>

lemma n_iters_positive:
  assumes "n_iters_of n bs = Inr k" and "0 < k"
  shows "0 < bs \<and> 0 < n"
proof -
  have nz: "bs \<noteq> 0" using assms(1) by (auto simp: n_iters_of_def split: if_splits)
  have k: "k = int n div bs + (if int n mod bs > 0 then 1 else 0)"
    using assms(1) nz by (simp add: n_iters_of_def)
  have bpos: "0 < bs"
  proof (rule ccontr)
    assume "\<not> 0 < bs"
    then have neg: "bs < 0" using nz by simp
    have "int n div bs \<le> 0" using neg by (simp add: div_nonneg_neg_le0)
    moreover have "int n mod bs \<le> 0" using neg by simp
    ultimately show False using k assms(2) by simp
  qed
  have "0 < n"
  proof (rule ccontr)
    assume "\<not> 0 < n"
    then have "n = 0" by simp
    then show False using k assms(2) by simp
  qed
  with bpos show ?thesis by simp
qed

lemma run_batches_Inr:
  assumes "run_batches fn X bs = Inr z"
  shows "0 < bs \<and> X \<noteq> []"
proof -
  from assms obtain k zs where it: "n_iters_of (length X) bs = Inr k"
    and lp: "batch_loop fn X bs (py_range k) = Inr zs" and nc: "np_concatenate zs = Inr z"
    by (auto simp: run_batches_def split: sum.splits)
  have "zs \<noteq> []" using nc by (auto simp: np_concatenate_def split: if_splits)
  then have "py_range k \<noteq> []" using lp batch_loop_Nil_iff [of fn X bs "py_range k"] by auto
  then have "0 < k" by (simp add: py_range_def)
  from n_iters_positive [OF it this] show ?thesis by simp
qed

lemma compute_z_Inr:
  assumes "compute_z ext ev kind = Inr z"
  shows "0 < batch_size ev \<and> (kind = ''train'' \<longrightarrow> X_train ev \<noteq> []) \<and> (kind = ''test'' \<longrightarrow> X_test ev \<noteq> [])"
proof -
  from assms obtain X where sp: "select_split ev kind = Inr X"
    and rb: "run_batches (extract_feature_representations ext ev) X (batch_size ev) = Inr z"
    by (auto simp: compute_z_def split: sum.splits)
  from run_batches_Inr [OF rb] have "0 < batch_size ev" "X \<noteq> []" by simp_all
  then show ?thesis using sp by (auto simp: select_split_def split: if_splits)
qed

lemma extract_cong:
  assumes "feature_extractor_type ev' = feature_extractor_type ev" and "fcn ev' = fcn ev"
    and "rocket_kernels ev' = rocket_kernels ev"
  shows "extract_feature_representations ext ev' = extract_feature_representations ext ev"
  unfolding extract_feature_representations_def assms by (rule refl)

lemma compute_z_cong:
  assumes "feature_extractor_type ev' = feature_extractor_type ev" and "fcn ev' = fcn ev"
    and "rocket_kernels ev' = rocket_kernels ev" and "batch_size ev' = batch_size ev"
    and "X_train ev' = X_train ev" and "X_test ev' = X_test ev"
  shows "compute_z ext ev' kind = compute_z ext ev kind"
  using assms by (simp add: compute_z_def select_split_def extract_cong [OF assms(1-3)])

lemma compute_z_z_train [simp]:
  "compute_z ext (ev\<lparr>z_train := v\<rparr>) kind = compute_z ext ev kind"
  by (rule compute_z_cong) simp_all

lemma init_attributes_Inr:
  assumes "init_attributes ext a = Inr ev0"
  shows "batch_size ev0 = config_batch_size a"
    and "feature_extractor_type ev0 = arg_feature_extractor_type a"
    and "arg_feature_extractor_type a = ''supervised_fcn'' \<or> arg_feature_extractor_type a = ''rocket''"
    and "use_custom_dataset a \<Longrightarrow> fcn ev0 = None"
    and "\<not> use_fidelity_enhancer a \<Longrightarrow> fidelity_enhancer ev0 = Identity"
  using assms
  by (auto simp: init_attributes_def split: if_splits sum.splits)

lemma init_Inr:
  assumes "init ext a = Inr ev"
  obtains ev0 zt zs p where "init_attributes ext a = Inr ev0"
    and "compute_z ext ev0 ''train'' = Inr zt" and "compute_z ext ev0 ''test'' = Inr zs"
    and "ev = ev0\<lparr>z_train := Some zt, z_test := Some zs, pca := Some p\<rparr>"
  using assms by (auto simp: init_def split: sum.splits)

lemma init_invariant:
  assumes "init ext a = Inr ev"
  shows "0 < batch_size ev" and "X_train ev \<noteq> []" and "X_test ev \<noteq> []"
    and "feature_extractor_type ev = arg_feature_extractor_type a"
    and "use_custom_dataset a \<Longrightarrow> fcn ev = None"
    and "\<not> use_fidelity_enhancer a \<Longrightarrow> fidelity_enhancer ev = Identity"
    and "compute_z ext ev ''train'' = Inr (the (z_train ev))"
proof -
  from assms obtain ev0 zt zs p where ia: "init_attributes ext a = Inr ev0"
    and ct: "compute_z ext ev0 ''train'' = Inr zt" and cs: "compute_z ext ev0 ''test'' = Inr zs"
    and ev: "ev = ev0\<lparr>z_train := Some zt, z_test := Some zs, pca := Some p\<rparr>"
    by (rule init_Inr)
  from compute_z_Inr [OF ct] compute_z_Inr [OF cs]
  show "0 < batch_size ev" and "X_train ev \<noteq> []" and "X_test ev \<noteq> []"
    by (simp_all add: ev)
  show "feature_extractor_type ev = arg_feature_extractor_type a"
    using init_attributes_Inr(2) [OF ia] by (simp add: ev)
  show "fcn ev = None" if "use_custom_dataset a"
    using init_attributes_Inr(4) [OF ia that] by (simp add: ev)
  show "fidelity_enhancer ev = Identity" if "\<not> use_fidelity_enhancer a"
    using init_attributes_Inr(5) [OF ia that] by (simp add: ev)
  have "compute_z ext ev ''train'' = compute_z ext ev0 ''train''"
    unfolding ev by (rule compute_z_cong) simp_all
  then show "compute_z ext ev ''train'' = Inr (the (z_train ev))"
    by (simp add: ct ev)
qed

lemma ex_init: "init ex_ext ex_args = Inr ex_ev"
  by (simp add: init_def init_attributes_def ex_ext_def ex_args_def ex_ev_def ex_dataset_def
      compute_z_def select_split_def run_batches_def n_iters_of_def py_range_def upt_rec
      py_slice_def clamp_index_def np_concatenate_def extract_feature_representations_def
      apply_kernels_spec_def kernel_features_def convolve_def ex_series_def remove_outliers_def)


section \<open>The refinement step without a fidelity enhancer\<close>

lemma num_batches_pos:
  assumes "0 < bs"
  shows "num_batches_of n bs = n_iters_of n bs"
proof -
  have "0 \<le> int n mod bs" using assms by simp
  then have "(int n mod bs \<noteq> 0) = (0 < int n mod bs)" by linarith
  then show ?thesis using assms by (simp add: num_batches_of_def n_iters_of_def)
qed

lemma refine_loop_Identity:
  "refine_loop Identity x bs idx =
     Inr (map (\<lambda>i. py_slice x (int i * bs) ((int i + 1) * bs)) idx)"
  by (induction idx) (simp_all add: Let_def algebra_simps)

lemma sample_Identity:
  assumes "fidelity_enhancer ev = Identity" and "0 < batch_size ev"
    and "kind \<in> set [''unconditional'', ''conditional'']"
    and "(if kind = ''unconditional'' then unconditional_sample ext n (batch_size ev)
          else conditional_sample ext n ci (batch_size ev)) = Inr (l, h, x)"
  shows "sample ext ev n kind ci = (if x = [] then Inl RuntimeError else Inr ((l, h, x), x))"
proof -
  define bs where "bs = batch_size ev"
  define k where "k = ceil_iters (length x) (nat bs)"
  have bpos: "0 < bs" using assms(2) by (simp add: bs_def)
  have it: "num_batches_of (length x) bs = Inr (int k)"
    using n_iters_pos [OF bpos, of "length x"]
    by (simp add: num_batches_pos [OF bpos] k_def ceil_iters_def)
  have lp: "refine_loop Identity x bs (py_range (int k)) = Inr (batch_slices x bs (int k))"
    by (simp add: refine_loop_Identity batch_slices_def)
  have cc: "concat (batch_slices x bs (int k)) = x"
    unfolding k_def by (rule concat_batch_slices [OF bpos])
  have k0: "(batch_slices x bs (int k) = []) = (x = [])"
    using ceil_cover(4) [of "nat bs" "length x"] bpos
    by (simp add: batch_slices_def py_range_def k_def ceil_iters_def)
  have core: "(case num_batches_of (length x) (batch_size ev) of
          Inl e \<Rightarrow> Inl e
        | Inr num_batches \<Rightarrow>
            (case refine_loop (fidelity_enhancer ev) x (batch_size ev) (py_range num_batches) of
               Inl e \<Rightarrow> Inl e
             | Inr parts \<Rightarrow>
                 (case torch_cat parts of
                    Inl e \<Rightarrow> Inl e
                  | Inr X_new_R \<Rightarrow> Inr ((l, h, x), X_new_R))))
       = (if x = [] then Inl RuntimeError else Inr ((l, h, x), x))"
    by (simp add: assms(1) bs_def [symmetric] it lp torch_cat_def k0 cc)
  show ?thesis
  proof (cases "kind = ''unconditional''")
    case True
    then have "unconditional_sample ext n (batch_size ev) = Inr (l, h, x)"
      using assms(4) by simp
    then show ?thesis using True by (simp add: sample_def core)
  next
    case False
    then have k: "kind = ''conditional''" using assms(3) by simp
    then have "conditional_sample ext n ci (batch_size ev) = Inr (l, h, x)"
      using assms(4) by simp
    then show ?thesis using k by (simp add: sample_def core)
  qed
qed

text \<open>
  Claim C4. For an evaluation object constructed with \<^verbatim>\<open>use_fidelity_enhancer=False\<close>,
  whenever \<^verbatim>\<open>sample\<close> returns, the refined batch equals the sampled batch \<^verbatim>\<open>x_new\<close>
  returned with it; and \<^verbatim>\<open>sample\<close> does return, with that pair, whenever the sampler
  returns at least one row.
\<close>

theorem identity_refinement:
  assumes "init ext a = Inr ev" and "\<not> use_fidelity_enhancer a"
  shows "(\<forall>l h x R. sample ext ev n kind ci = Inr ((l, h, x), R) \<longrightarrow> R = x)
       \<and> (\<forall>l h x. kind \<in> set [''unconditional'', ''conditional'']
             \<and> (if kind = ''unconditional'' then unconditional_sample ext n (batch_size ev)
                 else conditional_sample ext n ci (batch_size ev)) = Inr (l, h, x)
             \<and> x \<noteq> []
            \<longrightarrow> sample ext ev n kind ci = Inr ((l, h, x), x))"
proof -
  have fe: "fidelity_enhancer ev = Identity" by (rule init_invariant(6) [OF assms])
  have bp: "0 < batch_size ev" by (rule init_invariant(1) [OF assms(1)])
  have second: "sample ext ev n kind ci = Inr ((l, h, x), x)"
    if "kind \<in> set [''unconditional'', ''conditional'']"
      and "(if kind = ''unconditional'' then unconditional_sample ext n (batch_size ev)
                 else conditional_sample ext n ci (batch_size ev)) = Inr (l, h, x)"
      and "x \<noteq> []" for l h x
    using sample_Identity [OF fe bp that(1,2)] that(3) by simp
  have first: "R = x" if r: "sample ext ev n kind ci = Inr ((l, h, x), R)" for l h x R
  proof -
    have kk: "kind \<in> set [''unconditional'', ''conditional'']"
      using r by (auto simp: sample_def split: if_splits)
    obtain l' h' x' where s: "(if kind = ''unconditional'' then unconditional_sample ext n (batch_size ev)
                 else conditional_sample ext n ci (batch_size ev)) = Inr (l', h', x')"
      using r kk by (auto simp: sample_def split: if_splits sum.splits)
    from sample_Identity [OF fe bp kk s] r show ?thesis
      by (auto split: if_splits)
  qed
  show ?thesis using first second by blast
qed


theorem identity_refinement_witness:
  "init ex_ext ex_args = Inr ex_ev \<and> \<not> use_fidelity_enhancer ex_args
   \<and> sample ex_ext ex_ev 3 ''unconditional'' None
       = Inr ((ex_generated, ex_generated, ex_generated), ex_generated)"
proof -
  have h1: "init ex_ext ex_args = Inr ex_ev" by (rule ex_init)
  have h2: "\<not> use_fidelity_enhancer ex_args" by (simp add: ex_args_def)
  have k: "''unconditional'' \<in> set [''unconditional'', ''conditional'']" by simp
  have s: "(if ''unconditional'' = ''unconditional''
            then unconditional_sample ex_ext 3 (batch_size ex_ev)
            else conditional_sample ex_ext 3 None (batch_size ex_ev))
           = Inr (ex_generated, ex_generated, ex_generated)"
    by (simp add: ex_ext_def)
  have ne: "ex_generated \<noteq> []" by (simp add: ex_generated_def)
  have "sample ex_ext ex_ev 3 ''unconditional'' None
       = Inr ((ex_generated, ex_generated, ex_generated), ex_generated)"
    using identity_refinement [OF h1 h2, of 3 "''unconditional''" None,
        THEN conjunct2, rule_format, of ex_generated ex_generated ex_generated] k s ne
    by blast
  with h1 h2 show ?thesis by blast
qed

section \<open>Attributes that the constructor leaves unset\<close>

lemma batch_loop_first_fails:
  assumes "idx \<noteq> []" and "\<forall>x. fn x = Inl e"
  shows "batch_loop fn X bs idx = Inl e"
  using assms by (cases idx) simp_all

lemma py_range_nonempty:
  assumes "0 < bs" and "X \<noteq> []"
  obtains k where "n_iters_of (length X) bs = Inr k" and "py_range k \<noteq> []"
proof -
  have it: "n_iters_of (length X) bs = Inr (int (ceil_iters (length X) (nat bs)))"
    using n_iters_pos [OF assms(1), of "length X"] by (simp add: ceil_iters_def)
  have "ceil_iters (length X) (nat bs) \<noteq> 0"
    using ceil_cover(4) [of "nat bs" "length X"] assms by (simp add: ceil_iters_def)
  then have "py_range (int (ceil_iters (length X) (nat bs))) \<noteq> []"
    by (simp add: py_range_def)
  with it show ?thesis by (rule that)
qed

lemma py_range_Cons:
  assumes "py_range k \<noteq> []"
  shows "py_range k = 0 # [1..<nat k]"
  using assms by (simp add: py_range_def upt_conv_Cons)

lemma svq_step_Identity:
  assumes "fidelity_enhancer ev = Identity"
  shows "svq_step ext ev x =
     (case to_device ext x of Inl e \<Rightarrow> Inl e | Inr xd \<Rightarrow> Inl AttributeError)"
  by (simp add: svq_step_def assms split: sum.splits)

lemma svq_loop_Identity:
  assumes "fidelity_enhancer ev = Identity" and "py_range k \<noteq> []"
  shows "batch_loop (svq_step ext ev) X bs (py_range k) =
     (case to_device ext (py_slice X 0 bs) of Inl e \<Rightarrow> Inl e | Inr xd \<Rightarrow> Inl AttributeError)"
  by (simp add: py_range_Cons [OF assms(2)] svq_step_Identity [OF assms(1)] split: sum.splits)

text \<open>
  Claim C9, as amended. For an evaluation object constructed with
  \<^verbatim>\<open>use_fidelity_enhancer=False\<close>, no call of \<^verbatim>\<open>compute_z_svq\<close> returns. A call whose kind
  is neither \<^verbatim>\<open>'train'\<close> nor \<^verbatim>\<open>'test'\<close> fails the assertion on \<^verbatim>\<open>kind\<close>. A call with
  \<^verbatim>\<open>'train'\<close> or \<^verbatim>\<open>'test'\<close> raises on its first slice: the error of
  \<^verbatim>\<open>torch.from_numpy(x).float().to(self.device)\<close> if that statement raises, and otherwise
  \<open>AttributeError\<close> at the read of \<^verbatim>\<open>self.fidelity_enhancer.tau\<close>.
\<close>

theorem svq_needs_enhancer:
  assumes "init ext a = Inr ev" and "\<not> use_fidelity_enhancer a"
  shows "compute_z_svq ext ev kind =
           (case select_split ev kind of
              Inl e \<Rightarrow> Inl e
            | Inr X \<Rightarrow>
                (case to_device ext (py_slice X 0 (batch_size ev)) of
                   Inl e \<Rightarrow> Inl e
                 | Inr xd \<Rightarrow> Inl AttributeError))
       \<and> (kind \<notin> set [''train'', ''test''] \<longrightarrow> compute_z_svq ext ev kind = Inl AssertionError)
       \<and> (kind = ''train'' \<and> to_device ext (py_slice (X_train ev) 0 (batch_size ev)) = Inr xd
            \<longrightarrow> compute_z_svq ext ev kind = Inl AttributeError)
       \<and> (kind = ''test'' \<and> to_device ext (py_slice (X_test ev) 0 (batch_size ev)) = Inr xd
            \<longrightarrow> compute_z_svq ext ev kind = Inl AttributeError)
       \<and> (kind \<in> set [''train'', ''test'']
            \<and> to_device ext (py_slice (if kind = ''train'' then X_train ev else X_test ev) 0
                  (batch_size ev)) = Inl e
            \<longrightarrow> compute_z_svq ext ev kind = Inl e)
       \<and> (\<forall>r. compute_z_svq ext ev kind \<noteq> Inr r)"
proof -
  have fe: "fidelity_enhancer ev = Identity" by (rule init_invariant(6) [OF assms])
  have bp: "0 < batch_size ev" by (rule init_invariant(1) [OF assms(1)])
  have main: "compute_z_svq ext ev kind =
           (case select_split ev kind of
              Inl e \<Rightarrow> Inl e
            | Inr X \<Rightarrow>
                (case to_device ext (py_slice X 0 (batch_size ev)) of
                   Inl e \<Rightarrow> Inl e
                 | Inr xd \<Rightarrow> Inl AttributeError))"
  proof (cases "select_split ev kind")
    case (Inl e)
    then show ?thesis by (simp add: compute_z_svq_def)
  next
    case (Inr X)
    then have ne: "X \<noteq> []"
      using init_invariant(2,3) [OF assms(1)] by (auto simp: select_split_def split: if_splits)
    obtain k where it: "n_iters_of (length X) (batch_size ev) = Inr k" and rg: "py_range k \<noteq> []"
      by (rule py_range_nonempty [OF bp ne])
    show ?thesis
      by (simp add: compute_z_svq_def Inr it svq_loop_Identity [OF fe rg] split: sum.splits)
  qed
  have sp: "select_split ev kind =
      (if kind \<notin> set [''train'', ''test''] then Inl AssertionError
       else Inr (if kind = ''train'' then X_train ev else X_test ev))"
    by (simp add: select_split_def)
  have c2: "kind \<notin> set [''train'', ''test''] \<longrightarrow> compute_z_svq ext ev kind = Inl AssertionError"
    unfolding main sp by simp
  have c3: "kind = ''train'' \<and> to_device ext (py_slice (X_train ev) 0 (batch_size ev)) = Inr xd
            \<longrightarrow> compute_z_svq ext ev kind = Inl AttributeError"
    unfolding main sp by simp
  have c4: "kind = ''test'' \<and> to_device ext (py_slice (X_test ev) 0 (batch_size ev)) = Inr xd
            \<longrightarrow> compute_z_svq ext ev kind = Inl AttributeError"
    unfolding main sp by simp
  have c5: "kind \<in> set [''train'', ''test'']
            \<and> to_device ext (py_slice (if kind = ''train'' then X_train ev else X_test ev) 0
                  (batch_size ev)) = Inl e
            \<longrightarrow> compute_z_svq ext ev kind = Inl e"
    unfolding main sp by auto
  have c6: "\<forall>r. compute_z_svq ext ev kind \<noteq> Inr r"
    unfolding main by (simp split: sum.splits)
  show ?thesis
    using main c2 c3 c4 c5 c6 by blast
qed

lemma ex_init_no_device: "init ex_ext_no_device ex_args_custom = Inr (ex_ev\<lparr>fcn := None\<rparr>)"
  by (simp add: init_def init_attributes_def ex_ext_no_device_def ex_ext_def ex_args_custom_def
      ex_args_def ex_ev_def ex_dataset_def
      compute_z_def select_split_def run_batches_def n_iters_of_def py_range_def upt_rec
      py_slice_def clamp_index_def np_concatenate_def extract_feature_representations_def
      apply_kernels_spec_def kernel_features_def convolve_def ex_series_def remove_outliers_def)

theorem svq_needs_enhancer_witness:
  "init ex_ext ex_args = Inr ex_ev \<and> \<not> use_fidelity_enhancer ex_args
   \<and> to_device ex_ext (py_slice (X_train ex_ev) 0 (batch_size ex_ev))
       = Inr [ex_series 1 2, ex_series 3 4]
   \<and> compute_z_svq ex_ext ex_ev ''train'' = Inl AttributeError
   \<and> init ex_ext_no_device ex_args_custom = Inr (ex_ev\<lparr>fcn := None\<rparr>)
   \<and> \<not> use_fidelity_enhancer ex_args_custom
   \<and> compute_z_svq ex_ext_no_device (ex_ev\<lparr>fcn := None\<rparr>) ''train''
       = Inl (CollaboratorError ''device'')"
proof -
  have h1: "init ex_ext ex_args = Inr ex_ev" by (rule ex_init)
  have h2: "\<not> use_fidelity_enhancer ex_args" by (simp add: ex_args_def)
  have d: "to_device ex_ext (py_slice (X_train ex_ev) 0 (batch_size ex_ev))
       = Inr [ex_series 1 2, ex_series 3 4]"
    by (simp add: ex_ext_def ex_ev_def ex_dataset_def py_slice_def clamp_index_def)
  have a: "compute_z_svq ex_ext ex_ev ''train'' = Inl AttributeError"
    using svq_needs_enhancer [OF h1 h2, of "''train''" "[ex_series 1 2, ex_series 3 4]"] d
    by blast
  have g1: "init ex_ext_no_device ex_args_custom = Inr (ex_ev\<lparr>fcn := None\<rparr>)"
    by (rule ex_init_no_device)
  have g2: "\<not> use_fidelity_enhancer ex_args_custom"
    by (simp add: ex_args_custom_def ex_args_def)
  have dn: "to_device ex_ext_no_device
              (py_slice (if ''train'' = ''train'' then X_train (ex_ev\<lparr>fcn := None\<rparr>)
                         else X_test (ex_ev\<lparr>fcn := None\<rparr>)) 0
                 (batch_size (ex_ev\<lparr>fcn := None\<rparr>)))
            = Inl (CollaboratorError ''device'')"
    by (simp add: ex_ext_no_device_def)
  have k: "''train'' \<in> set [''train'', ''test'']" by simp
  have b: "compute_z_svq ex_ext_no_device (ex_ev\<lparr>fcn := None\<rparr>) ''train''
       = Inl (CollaboratorError ''device'')"
    using svq_needs_enhancer [OF g1 g2, of "''train''" _ "CollaboratorError ''device''"] dn k
    by blast
  show ?thesis
    by (intro conjI h1 h2 d a g1 g2 b)
qed

text \<open>
  The claim as it was stated, "every call raises an attribute error", fails for a call
  whose kind is neither \<^verbatim>\<open>'train'\<close> nor \<^verbatim>\<open>'test'\<close>.
\<close>

theorem svq_attribute_error_counterexample:
  "init ex_ext ex_args = Inr ex_ev \<and> \<not> use_fidelity_enhancer ex_args
   \<and> compute_z_svq ex_ext ex_ev ''validation'' = Inl AssertionError
   \<and> compute_z_svq ex_ext ex_ev ''validation'' \<noteq> Inl AttributeError"
proof -
  have v: "compute_z_svq ex_ext ex_ev ''validation'' = Inl AssertionError"
    by (simp add: compute_z_svq_def select_split_def)
  have n: "compute_z_svq ex_ext ex_ev ''validation'' \<noteq> Inl AttributeError"
    by (simp add: v)
  have u: "\<not> use_fidelity_enhancer ex_args" by (simp add: ex_args_def)
  show ?thesis
    by (intro conjI ex_init u v n)
qed

text \<open>
  Claim C10. For an evaluation object constructed with \<^verbatim>\<open>use_custom_dataset=True\<close>,
  \<^verbatim>\<open>self.fcn\<close> is never set, so every call of \<^verbatim>\<open>inception_score\<close> raises
  \<open>AttributeError\<close>, and the object's extractor is \<^verbatim>\<open>'rocket'\<close>: with
  \<^verbatim>\<open>'supervised_fcn'\<close> every feature extraction raises \<open>AttributeError\<close>, the first of them
  inside the constructor, which therefore never returns an object.
\<close>

theorem custom_dataset_has_no_classifier:
  assumes "use_custom_dataset a"
  shows "(\<forall>ev. init ext a = Inr ev \<longrightarrow>
            fcn ev = None \<and> feature_extractor_type ev = ''rocket''
          \<and> (\<forall>X_gen. inception_score ext ev X_gen = Inl AttributeError))
       \<and> (\<forall>ev0. init_attributes ext a = Inr ev0 \<and> feature_extractor_type ev0 = ''supervised_fcn'' \<longrightarrow>
            fcn ev0 = None
          \<and> (\<forall>x. extract_feature_representations ext ev0 x = Inl AttributeError)
          \<and> (\<forall>ev. init ext a \<noteq> Inr ev)
          \<and> (0 < batch_size ev0 \<and> X_train ev0 \<noteq> [] \<longrightarrow> init ext a = Inl AttributeError))"
proof (intro conjI allI impI)
  fix ev0
  assume h: "init_attributes ext a = Inr ev0 \<and> feature_extractor_type ev0 = ''supervised_fcn''"
  then have ia: "init_attributes ext a = Inr ev0" and ty: "feature_extractor_type ev0 = ''supervised_fcn''"
    by simp_all
  show f0: "fcn ev0 = None" by (rule init_attributes_Inr(4) [OF ia assms])
  have ex: "\<forall>x. extract_feature_representations ext ev0 x = Inl AttributeError"
    by (simp add: extract_feature_representations_def ty f0)
  then show "extract_feature_representations ext ev0 x = Inl AttributeError" for x by simp
  have cz: "compute_z ext ev0 ''train'' = Inr z \<Longrightarrow> False" for z
  proof -
    assume c: "compute_z ext ev0 ''train'' = Inr z"
    from compute_z_Inr [OF c] have bp: "0 < batch_size ev0" and ne: "X_train ev0 \<noteq> []" by simp_all
    obtain k where it: "n_iters_of (length (X_train ev0)) (batch_size ev0) = Inr k"
      and rg: "py_range k \<noteq> []"
      by (rule py_range_nonempty [OF bp ne])
    have "batch_loop (extract_feature_representations ext ev0) (X_train ev0) (batch_size ev0)
            (py_range k) = Inl AttributeError"
      by (rule batch_loop_first_fails [OF rg ex])
    then show False using c by (simp add: compute_z_def select_split_def run_batches_def it)
  qed
  show "init ext a \<noteq> Inr ev" for ev
  proof
    assume "init ext a = Inr ev"
    then obtain ev0' zt where "init_attributes ext a = Inr ev0'" "compute_z ext ev0' ''train'' = Inr zt"
      by (auto elim: init_Inr)
    with ia cz show False by simp
  qed
  show "init ext a = Inl AttributeError" if "0 < batch_size ev0 \<and> X_train ev0 \<noteq> []"
  proof -
    from that have bp: "0 < batch_size ev0" and ne: "X_train ev0 \<noteq> []" by simp_all
    obtain k where it: "n_iters_of (length (X_train ev0)) (batch_size ev0) = Inr k"
      and rg: "py_range k \<noteq> []"
      by (rule py_range_nonempty [OF bp ne])
    have "batch_loop (extract_feature_representations ext ev0) (X_train ev0) (batch_size ev0)
            (py_range k) = Inl AttributeError"
      by (rule batch_loop_first_fails [OF rg ex])
    then have "compute_z ext ev0 ''train'' = Inl AttributeError"
      by (simp add: compute_z_def select_split_def run_batches_def it)
    then show ?thesis by (simp add: init_def ia)
  qed
next
  fix ev assume i: "init ext a = Inr ev"
  show f: "fcn ev = None" by (rule init_invariant(5) [OF i assms])
  have bp: "0 < batch_size ev" and ne: "X_test ev \<noteq> []"
    by (rule init_invariant(1,3) [OF i])+
  have cp: "\<forall>x. class_probabilities ext ev x = Inl AttributeError"
    by (simp add: class_probabilities_def f)
  obtain k where it: "n_iters_of (length (X_test ev)) (batch_size ev) = Inr k"
    and rg: "py_range k \<noteq> []"
    by (rule py_range_nonempty [OF bp ne])
  have lp: "batch_loop (class_probabilities ext ev) X_gen (batch_size ev) (py_range k)
      = Inl AttributeError" for X_gen
    by (rule batch_loop_first_fails [OF rg cp])
  show "inception_score ext ev X_gen = Inl AttributeError" for X_gen
    by (simp add: inception_score_def p_yx_gen_def it lp)
  show "feature_extractor_type ev = ''rocket''"
  proof (rule ccontr)
    assume nr: "feature_extractor_type ev \<noteq> ''rocket''"
    from i obtain ev0 zt zs p where ia: "init_attributes ext a = Inr ev0"
      and ct: "compute_z ext ev0 ''train'' = Inr zt"
      and ev: "ev = ev0\<lparr>z_train := Some zt, z_test := Some zs, pca := Some p\<rparr>"
      by (rule init_Inr)
    have ty: "feature_extractor_type ev0 = ''supervised_fcn''"
      using init_attributes_Inr(2,3) [OF ia] nr by (auto simp: ev)
    have f0: "fcn ev0 = None" by (rule init_attributes_Inr(4) [OF ia assms])
    have ex: "\<forall>x. extract_feature_representations ext ev0 x = Inl AttributeError"
      by (simp add: extract_feature_representations_def ty f0)
    from compute_z_Inr [OF ct] have bp0: "0 < batch_size ev0" and ne0: "X_train ev0 \<noteq> []"
      by simp_all
    obtain k0 where it0: "n_iters_of (length (X_train ev0)) (batch_size ev0) = Inr k0"
      and rg0: "py_range k0 \<noteq> []"
      by (rule py_range_nonempty [OF bp0 ne0])
    have "batch_loop (extract_feature_representations ext ev0) (X_train ev0) (batch_size ev0)
            (py_range k0) = Inl AttributeError"
      by (rule batch_loop_first_fails [OF rg0 ex])
    then show False using ct by (simp add: compute_z_def select_split_def run_batches_def it0)
  qed
qed

lemma ex_init_custom: "init ex_ext ex_args_custom = Inr (ex_ev\<lparr>fcn := None\<rparr>)"
  by (simp add: init_def init_attributes_def ex_ext_def ex_args_custom_def ex_args_def ex_ev_def
      ex_dataset_def
      compute_z_def select_split_def run_batches_def n_iters_of_def py_range_def upt_rec
      py_slice_def clamp_index_def np_concatenate_def extract_feature_representations_def
      apply_kernels_spec_def kernel_features_def convolve_def ex_series_def remove_outliers_def)

theorem custom_dataset_has_no_classifier_witness:
  "use_custom_dataset ex_args_custom
   \<and> init ex_ext ex_args_custom = Inr (ex_ev\<lparr>fcn := None\<rparr>)
   \<and> inception_score ex_ext (ex_ev\<lparr>fcn := None\<rparr>) ex_generated = Inl AttributeError
   \<and> use_custom_dataset ex_args_custom_fcn
   \<and> init ex_ext ex_args_custom_fcn = Inl AttributeError"
proof -
  have h: "use_custom_dataset ex_args_custom" by (simp add: ex_args_custom_def)
  have i: "init ex_ext ex_args_custom = Inr (ex_ev\<lparr>fcn := None\<rparr>)" by (rule ex_init_custom)
  have s: "inception_score ex_ext (ex_ev\<lparr>fcn := None\<rparr>) ex_generated = Inl AttributeError"
    using custom_dataset_has_no_classifier [OF h, of ex_ext] i by blast
  have h': "use_custom_dataset ex_args_custom_fcn" by (simp add: ex_args_custom_fcn_def)
  obtain ev0 where "init_attributes ex_ext ex_args_custom_fcn = Inr ev0"
    and "feature_extractor_type ev0 = ''supervised_fcn''"
    and "0 < batch_size ev0" and "X_train ev0 \<noteq> []"
    by (simp add: init_attributes_def ex_ext_def ex_args_custom_fcn_def ex_args_def ex_dataset_def)
  then have f: "init ex_ext ex_args_custom_fcn = Inl AttributeError"
    using custom_dataset_has_no_classifier [OF h', of ex_ext] by blast
  show ?thesis
    by (intro conjI h i s h' f)
qed

section \<open>Multi-channel input to the kernel transform\<close>

lemma channel0_all_nonempty:
  assumes "\<forall>s\<in>set x. s \<noteq> []"
  shows "channel0 x = Inr (map hd x)"
  using assms by (induction x rule: channel0.induct) simp_all

text \<open>
  Claim C2, as amended. On a batch whose samples have one or more channels, the
  \<^verbatim>\<open>'rocket'\<close> extraction raises no unsupported-input error of its own: \<^verbatim>\<open>x[:,0,:]\<close> selects
  channel 0 of every sample, the other channels are ignored, and the result is what
  \<^verbatim>\<open>apply_kernels\<close> returns on channel 0, the same as for the batch reduced to its first
  channel.
\<close>

theorem rocket_uses_first_channel:
  assumes "feature_extractor_type ev = ''rocket''" and "rocket_kernels ev = Some K"
    and "\<forall>s\<in>set x. s \<noteq> []"
  shows "extract_feature_representations ext ev x = apply_kernels ext (map hd x) K
       \<and> extract_feature_representations ext ev x
           = extract_feature_representations ext ev (map (\<lambda>s. [hd s]) x)"
proof -
  have a: "extract_feature_representations ext ev x = apply_kernels ext (map hd x) K"
    by (simp add: extract_feature_representations_def assms(1,2) channel0_all_nonempty [OF assms(3)])
  have "\<forall>s\<in>set (map (\<lambda>s. [hd s]) x). s \<noteq> []" by simp
  then have "channel0 (map (\<lambda>s. [hd s]) x) = Inr (map hd (map (\<lambda>s. [hd s]) x))"
    by (rule channel0_all_nonempty)
  then have b: "extract_feature_representations ext ev (map (\<lambda>s. [hd s]) x)
      = apply_kernels ext (map hd x) K"
    by (simp add: extract_feature_representations_def assms(1,2) comp_def)
  show ?thesis using a b by simp
qed

lemma ex_two_channels_features:
  "extract_feature_representations ex_ext ex_ev ex_two_channels = Inr [[Finite 2, Finite 1]]"
  by (simp add: extract_feature_representations_def ex_ev_def ex_two_channels_def ex_ext_def
      apply_kernels_spec_def kernel_features_def convolve_def upt_rec)

theorem rocket_uses_first_channel_witness:
  "feature_extractor_type ex_ev = ''rocket'' \<and> rocket_kernels ex_ev = Some [[1]]
   \<and> [] \<notin> set ex_two_channels
   \<and> extract_feature_representations ex_ext ex_ev ex_two_channels
       = extract_feature_representations ex_ext ex_ev [[[Finite 1, Finite 2]]]
   \<and> extract_feature_representations ex_ext ex_ev ex_two_channels = Inr [[Finite 2, Finite 1]]"
proof -
  have h1: "feature_extractor_type ex_ev = ''rocket''" by (simp add: ex_ev_def)
  have h2: "rocket_kernels ex_ev = Some [[1]]" by (simp add: ex_ev_def)
  have h3: "\<forall>s\<in>set ex_two_channels. s \<noteq> []" by (simp add: ex_two_channels_def)
  have m: "map (\<lambda>s. [hd s]) ex_two_channels = [[[Finite 1, Finite 2]]]"
    by (simp add: ex_two_channels_def)
  have a: "extract_feature_representations ex_ext ex_ev ex_two_channels
       = extract_feature_representations ex_ext ex_ev [[[Finite 1, Finite 2]]]"
    using rocket_uses_first_channel [OF h1 h2 h3, of ex_ext, THEN conjunct2] by (simp only: m)
  have n: "[] \<notin> set ex_two_channels" by (simp add: ex_two_channels_def)
  show ?thesis
    by (intro conjI h1 h2 n a ex_two_channels_features)
qed

text \<open>
  The claim as it was stated, "multi-channel input fails with an unsupported-input
  error", fails on a batch of one sample with two channels: feature vectors are produced
  from the first channel.
\<close>

theorem multichannel_counterexample:
  "extract_feature_representations ex_ext ex_ev ex_two_channels = Inr [[Finite 2, Finite 1]]
   \<and> extract_feature_representations ex_ext ex_ev ex_two_channels \<noteq> Inl UnsupportedInputError
   \<and> length (hd ex_two_channels) = 2"
  by (simp add: ex_two_channels_features) (simp add: ex_two_channels_def)

section \<open>The distribution distance\<close>

text \<open>
  Claim C3. When either feature set has fewer than two rows that are entirely finite,
  \<^verbatim>\<open>fid_score\<close> raises the insufficient-data error and returns no score. The error is
  that of \<^verbatim>\<open>calculate_fid\<close> as the specification describes it; \<^verbatim>\<open>fid_score\<close> itself only
  filters and delegates.
\<close>

theorem fid_insufficient_data:
  assumes "length (filter (list_all isfinite) z1) < 2 \<or> length (filter (list_all isfinite) z2) < 2"
  shows "fid_score frechet z1 z2 = Inl InsufficientDataError"
  using assms by (auto simp: fid_score_def calculate_fid_def remove_outliers_def)

theorem fid_insufficient_data_witness:
  "(length (filter (list_all isfinite) [[Finite 1, Finite 2], [NaN, Finite 0], [Finite 3, PosInf]]) < 2
    \<or> length (filter (list_all isfinite) [[Finite 1, Finite 0], [Finite 2, Finite 5]]) < 2)
   \<and> fid_score ex_frechet [[Finite 1, Finite 2], [NaN, Finite 0], [Finite 3, PosInf]]
        [[Finite 1, Finite 0], [Finite 2, Finite 5]] = Inl InsufficientDataError"
proof -
  have h: "length (filter (list_all isfinite) [[Finite 1, Finite 2], [NaN, Finite 0], [Finite 3, PosInf]]) < 2
    \<or> length (filter (list_all isfinite) [[Finite 1, Finite 0], [Finite 2, Finite 5]]) < 2"
    by simp
  show ?thesis
    using fid_insufficient_data [OF h, of ex_frechet] h by blast
qed

lemma remove_outliers_drop_bad:
  assumes "\<not> list_all isfinite bad"
  shows "remove_outliers (xs @ bad # ys) = remove_outliers (xs @ ys)"
  using assms by (simp add: remove_outliers_def)

text \<open>
  Claim C5. \<^verbatim>\<open>fid_score\<close> computes the distance on \<^verbatim>\<open>remove_outliers(z1)\<close> and
  \<^verbatim>\<open>remove_outliers(z2)\<close>: the rows that reach the statistics of a set are exactly the rows
  of that set whose values are all finite, so a row with a non-finite value changes
  neither score, wherever it stands and in whichever set.
\<close>

theorem fid_filters_each_set:
  assumes "\<not> list_all isfinite bad"
  shows "fid_score frechet z1 z2 = calculate_fid frechet (remove_outliers z1) (remove_outliers z2)
       \<and> (\<forall>row. row \<in> set (remove_outliers z1) \<longleftrightarrow> row \<in> set z1 \<and> (\<forall>v\<in>set row. isfinite v))
       \<and> (\<forall>row. row \<in> set (remove_outliers z2) \<longleftrightarrow> row \<in> set z2 \<and> (\<forall>v\<in>set row. isfinite v))
       \<and> fid_score frechet (xs @ bad # ys) z2 = fid_score frechet (xs @ ys) z2
       \<and> fid_score frechet z1 (xs @ bad # ys) = fid_score frechet z1 (xs @ ys)"
  using assms
  by (simp add: fid_score_def remove_outliers_drop_bad) (auto simp: remove_outliers_def list_all_iff)

theorem fid_filters_each_set_witness:
  "\<not> list_all isfinite [NaN, Finite 0]
   \<and> fid_score ex_frechet ([[Finite 1, Finite 2]] @ [NaN, Finite 0] # [[Finite 3, Finite 4]])
        [[Finite 1, Finite 0], [Finite 2, Finite 5]]
       = fid_score ex_frechet ([[Finite 1, Finite 2]] @ [[Finite 3, Finite 4]])
        [[Finite 1, Finite 0], [Finite 2, Finite 5]]
   \<and> fid_score ex_frechet ([[Finite 1, Finite 2]] @ [[Finite 3, Finite 4]])
        [[Finite 1, Finite 0], [Finite 2, Finite 5]] = Inr (Finite 4)"
proof -
  have h: "\<not> list_all isfinite [NaN, Finite 0]" by simp
  have a: "fid_score ex_frechet ([[Finite 1, Finite 2]] @ [NaN, Finite 0] # [[Finite 3, Finite 4]])
        [[Finite 1, Finite 0], [Finite 2, Finite 5]]
       = fid_score ex_frechet ([[Finite 1, Finite 2]] @ [[Finite 3, Finite 4]])
        [[Finite 1, Finite 0], [Finite 2, Finite 5]]"
    using fid_filters_each_set [OF h, of ex_frechet _ "[[Finite 1, Finite 0], [Finite 2, Finite 5]]"
        "[[Finite 1, Finite 2]]" "[[Finite 3, Finite 4]]"]
    by blast
  have b: "fid_score ex_frechet ([[Finite 1, Finite 2]] @ [[Finite 3, Finite 4]])
        [[Finite 1, Finite 0], [Finite 2, Finite 5]] = Inr (Finite 4)"
    by (simp add: fid_score_def calculate_fid_def remove_outliers_def ex_frechet_def)
  show ?thesis
    by (intro conjI h a b)
qed

section \<open>Failures of the telemetry sink\<close>

lemma log_and_close_Inr:
  "fst (log_and_close env key w) = Inr () \<Longrightarrow> wandb_log env key = None"
  by (auto simp: log_and_close_def split: option.splits)

lemma log_and_close_fails:
  "wandb_log env key = Some e \<Longrightarrow> log_and_close env key w = (Inl e, w)"
  by (simp add: log_and_close_def)

lemma log_visual_inspection_Inr:
  assumes "fst (log_visual_inspection env w X1 X2 title n) = Inr ()"
  shows "wandb_log env (VisualComp title) = None"
  using assms
  by (auto simp: log_visual_inspection_def split: sum.splits dest: log_and_close_Inr)

lemma log_pca_Inr:
  assumes "fst (log_pca env ev w Zs labels n) = Inr ()"
  shows "wandb_log env (PCAonZ labels) = None"
  using assms
  by (auto simp: log_pca_def split: sum.splits if_splits dest: log_and_close_Inr)

lemma log_tsne_Inr:
  assumes "fst (log_tsne env ev w n X_gen zt zg) = Inr ()"
  shows "wandb_log env TSNEData = None \<and> wandb_log env TSNELatent = None"
proof -
  from assms obtain w1 where a: "fst (log_and_close env TSNEData (new_figure w)) = Inr ()"
    and b: "fst (log_and_close env TSNELatent (new_figure w1)) = Inr ()"
    by (auto simp: log_tsne_def Let_def split: sum.splits)
  from log_and_close_Inr [OF a] log_and_close_Inr [OF b] show ?thesis by simp
qed

text \<open>
  Claim C6, as amended. An error raised by the telemetry sink inside
  \<^verbatim>\<open>log_visual_inspection\<close>, \<^verbatim>\<open>log_pca\<close> or \<^verbatim>\<open>log_tsne\<close> is not caught: each method
  completes only if every \<^verbatim>\<open>wandb.log\<close> call that it makes succeeded, and when a call is
  reached and raises \<open>e\<close>, the method raises \<open>e\<close> to its caller and leaves the figure of
  that call open, \<^verbatim>\<open>plt.close()\<close> being skipped. In \<^verbatim>\<open>log_tsne\<close> this holds for the first
  call (the data space) and, when the first succeeded, for the second (the latent space).
\<close>

theorem telemetry_failure_propagates:
  shows "(fst (log_visual_inspection env w X1 X2 title n) = Inr ()
            \<longrightarrow> wandb_log env (VisualComp title) = None)
       \<and> (fst (log_pca env ev w Zs labels n) = Inr ()
            \<longrightarrow> wandb_log env (PCAonZ labels) = None)
       \<and> (fst (log_tsne env ev w n X_gen zt zg) = Inr ()
            \<longrightarrow> wandb_log env TSNEData = None \<and> wandb_log env TSNELatent = None)
       \<and> (np_random_randint env 0 (length X1) n = Inr ind1
            \<and> rowwise (plot_series X1) ind1 = Inr lines1
            \<and> np_random_randint env 1 (length X2) n = Inr ind2
            \<and> rowwise (plot_series X2) ind2 = Inr lines2
            \<and> wandb_log env (VisualComp title) = Some e
            \<longrightarrow> log_visual_inspection env w X1 X2 title n = (Inl e, new_figure w))
       \<and> (length Zs = length labels
            \<and> pca_scatter_loop env ev n 0 (zip Zs labels) = Inr ()
            \<and> wandb_log env (PCAonZ labels) = Some e
            \<longrightarrow> log_pca env ev w Zs labels n = (Inl e, new_figure w))
       \<and> (interpolate env X_gen (X_test ev) = Inr Xg
            \<and> np_random_randint env 0 (length (X_test ev)) n = Inr ind_t
            \<and> np_random_randint env 1 (length Xg) n = Inr ind_g
            \<and> rowwise (get_row (X_test ev)) ind_t = Inr Xa
            \<and> rowwise (get_row Xg) ind_g = Inr Xb
            \<and> tsne_data_space env (Xa @ Xb) = Inr Xe
            \<and> wandb_log env TSNEData = Some e
            \<longrightarrow> log_tsne env ev w n X_gen zt zg = (Inl e, new_figure w))
       \<and> (interpolate env X_gen (X_test ev) = Inr Xg
            \<and> np_random_randint env 0 (length (X_test ev)) n = Inr ind_t
            \<and> np_random_randint env 1 (length Xg) n = Inr ind_g
            \<and> rowwise (get_row (X_test ev)) ind_t = Inr Xa
            \<and> rowwise (get_row Xg) ind_g = Inr Xb
            \<and> tsne_data_space env (Xa @ Xb) = Inr Xe
            \<and> wandb_log env TSNEData = None
            \<and> rowwise (get_row zt) ind_t = Inr Za
            \<and> rowwise (get_row zg) ind_g = Inr Zb
            \<and> tsne_latent_space env (Za @ Zb) = Inr Ze
            \<and> wandb_log env TSNELatent = Some e
            \<longrightarrow> log_tsne env ev w n X_gen zt zg
                  = (Inl e, new_figure (plt_close ((new_figure w)
                       \<lparr>logged := logged (new_figure w) @ [TSNEData]\<rparr>))))"
proof (intro conjI impI)
  show "wandb_log env (VisualComp title) = None"
    if "fst (log_visual_inspection env w X1 X2 title n) = Inr ()"
    using that by (rule log_visual_inspection_Inr)
  show "wandb_log env (PCAonZ labels) = None" if "fst (log_pca env ev w Zs labels n) = Inr ()"
    using that by (rule log_pca_Inr)
  show "wandb_log env TSNEData = None" if "fst (log_tsne env ev w n X_gen zt zg) = Inr ()"
    using log_tsne_Inr [OF that] by simp
  show "wandb_log env TSNELatent = None" if "fst (log_tsne env ev w n X_gen zt zg) = Inr ()"
    using log_tsne_Inr [OF that] by simp
  show "log_visual_inspection env w X1 X2 title n = (Inl e, new_figure w)"
    if "np_random_randint env 0 (length X1) n = Inr ind1
            \<and> rowwise (plot_series X1) ind1 = Inr lines1
            \<and> np_random_randint env 1 (length X2) n = Inr ind2
            \<and> rowwise (plot_series X2) ind2 = Inr lines2
            \<and> wandb_log env (VisualComp title) = Some e"
    using that by (simp add: log_visual_inspection_def log_and_close_fails)
  show "log_pca env ev w Zs labels n = (Inl e, new_figure w)"
    if "length Zs = length labels
            \<and> pca_scatter_loop env ev n 0 (zip Zs labels) = Inr ()
            \<and> wandb_log env (PCAonZ labels) = Some e"
    using that by (simp add: log_pca_def log_and_close_fails)
  show "log_tsne env ev w n X_gen zt zg = (Inl e, new_figure w)"
    if "interpolate env X_gen (X_test ev) = Inr Xg
            \<and> np_random_randint env 0 (length (X_test ev)) n = Inr ind_t
            \<and> np_random_randint env 1 (length Xg) n = Inr ind_g
            \<and> rowwise (get_row (X_test ev)) ind_t = Inr Xa
            \<and> rowwise (get_row Xg) ind_g = Inr Xb
            \<and> tsne_data_space env (Xa @ Xb) = Inr Xe
            \<and> wandb_log env TSNEData = Some e"
    using that by (simp add: log_tsne_def log_and_close_fails)
  show "log_tsne env ev w n X_gen zt zg
          = (Inl e, new_figure (plt_close ((new_figure w)
               \<lparr>logged := logged (new_figure w) @ [TSNEData]\<rparr>)))"
    if "interpolate env X_gen (X_test ev) = Inr Xg
            \<and> np_random_randint env 0 (length (X_test ev)) n = Inr ind_t
            \<and> np_random_randint env 1 (length Xg) n = Inr ind_g
            \<and> rowwise (get_row (X_test ev)) ind_t = Inr Xa
            \<and> rowwise (get_row Xg) ind_g = Inr Xb
            \<and> tsne_data_space env (Xa @ Xb) = Inr Xe
            \<and> wandb_log env TSNEData = None
            \<and> rowwise (get_row zt) ind_t = Inr Za
            \<and> rowwise (get_row zg) ind_g = Inr Zb
            \<and> tsne_latent_space env (Za @ Zb) = Inr Ze
            \<and> wandb_log env TSNELatent = Some e"
    using that by (simp add: log_tsne_def log_and_close_fails log_and_close_def)
qed

lemma ex_log_visual_fails:
  "log_visual_inspection ex_failing_env ex_world ex_generated ex_generated ''test vs generated'' 2
     = (Inl (CollaboratorError ''wandb''), \<lparr>open_figures = 1, logged = []\<rparr>)"
  by (simp add: log_visual_inspection_def log_and_close_def ex_failing_env_def ex_world_def
      ex_generated_def ex_series_def plot_series_def get_row_def new_figure_def numeral_2_eq_2)

lemma ex_log_visual_ok:
  "log_visual_inspection ex_accepting_env ex_world ex_generated ex_generated ''test vs generated'' 2
     = (Inr (), \<lparr>open_figures = 0, logged = [VisualComp ''test vs generated'']\<rparr>)"
  by (simp add: log_visual_inspection_def log_and_close_def ex_failing_env_def ex_world_def
      ex_accepting_env_def plt_close_def
      ex_generated_def ex_series_def plot_series_def get_row_def new_figure_def numeral_2_eq_2)

lemma ex_log_pca_fails:
  "log_pca ex_failing_env ex_ev ex_world [[[Finite 2, Finite 1]]] [''train''] 2
     = (Inl (CollaboratorError ''wandb''), \<lparr>open_figures = 1, logged = []\<rparr>)"
  by (simp add: log_pca_def log_and_close_def ex_failing_env_def ex_world_def ex_ev_def ex_pca_def
      get_row_def new_figure_def numeral_2_eq_2)

lemma ex_log_tsne_fails:
  "log_tsne ex_failing_env ex_ev ex_world 2 ex_generated
       [[Finite 6, Finite 1], [Finite 1, Finite (1 / 2)]]
       [[Finite 8, Finite 1], [Finite 10, Finite 1], [Finite 12, Finite 1]]
     = (Inl (CollaboratorError ''wandb''), \<lparr>open_figures = 1, logged = []\<rparr>)"
  by (simp add: log_tsne_def log_and_close_def ex_failing_env_def ex_world_def ex_ev_def
      ex_dataset_def ex_generated_def get_row_def new_figure_def numeral_2_eq_2)

theorem telemetry_failure_propagates_witness:
  "fst (log_visual_inspection ex_accepting_env ex_world ex_generated ex_generated
          ''test vs generated'' 2) = Inr ()
   \<and> wandb_log ex_accepting_env (VisualComp ''test vs generated'') = None
   \<and> np_random_randint ex_failing_env 0 (length ex_generated) 2 = Inr [0, 0]
   \<and> rowwise (plot_series ex_generated) [0, 0] = Inr [[Finite 7, Finite 8], [Finite 7, Finite 8]]
   \<and> np_random_randint ex_failing_env 1 (length ex_generated) 2 = Inr [0, 0]
   \<and> wandb_log ex_failing_env (VisualComp ''test vs generated'') = Some (CollaboratorError ''wandb'')
   \<and> log_visual_inspection ex_failing_env ex_world ex_generated ex_generated
        ''test vs generated'' 2 = (Inl (CollaboratorError ''wandb''), new_figure ex_world)
   \<and> interpolate ex_failing_env ex_generated (X_test ex_ev) = Inr ex_generated
   \<and> np_random_randint ex_failing_env 0 (length (X_test ex_ev)) 2 = Inr [0, 0]
   \<and> rowwise (get_row (X_test ex_ev)) [0, 0] = Inr [ex_series 5 6, ex_series 5 6]
   \<and> rowwise (get_row ex_generated) [0, 0] = Inr [ex_series 7 8, ex_series 7 8]
   \<and> tsne_data_space ex_failing_env
         ([ex_series 5 6, ex_series 5 6] @ [ex_series 7 8, ex_series 7 8])
       = Inr [[Finite 5, Finite 6], [Finite 5, Finite 6], [Finite 7, Finite 8], [Finite 7, Finite 8]]
   \<and> wandb_log ex_failing_env TSNEData = Some (CollaboratorError ''wandb'')
   \<and> log_tsne ex_failing_env ex_ev ex_world 2 ex_generated
         [[Finite 6, Finite 1], [Finite 1, Finite (1 / 2)]]
         [[Finite 8, Finite 1], [Finite 10, Finite 1], [Finite 12, Finite 1]]
       = (Inl (CollaboratorError ''wandb''), new_figure ex_world)"
proof -
  have ok: "fst (log_visual_inspection ex_accepting_env ex_world ex_generated ex_generated
          ''test vs generated'' 2) = Inr ()"
    by (simp add: ex_log_visual_ok)
  have acc: "wandb_log ex_accepting_env (VisualComp ''test vs generated'') = None"
    using telemetry_failure_propagates
      [where env = ex_accepting_env and w = ex_world and ?X1.0 = ex_generated
         and ?X2.0 = ex_generated and title = "''test vs generated''" and n = 2,
       THEN conjunct1] ok
    by blast
  have r1: "np_random_randint ex_failing_env 0 (length ex_generated) 2 = Inr [0, 0]"
    by (simp add: ex_failing_env_def ex_generated_def numeral_2_eq_2)
  have r2: "np_random_randint ex_failing_env 1 (length ex_generated) 2 = Inr [0, 0]"
    by (simp add: ex_failing_env_def ex_generated_def numeral_2_eq_2)
  have p: "rowwise (plot_series ex_generated) [0, 0] = Inr [[Finite 7, Finite 8], [Finite 7, Finite 8]]"
    by (simp add: plot_series_def get_row_def ex_generated_def ex_series_def)
  have f: "wandb_log ex_failing_env (VisualComp ''test vs generated'') = Some (CollaboratorError ''wandb'')"
    by (simp add: ex_failing_env_def)
  have raised: "log_visual_inspection ex_failing_env ex_world ex_generated ex_generated
        ''test vs generated'' 2 = (Inl (CollaboratorError ''wandb''), new_figure ex_world)"
    using telemetry_failure_propagates
      [where env = ex_failing_env and w = ex_world and ?X1.0 = ex_generated
         and ?X2.0 = ex_generated and title = "''test vs generated''" and n = 2
         and ?ind1.0 = "[0, 0]" and ?lines1.0 = "[[Finite 7, Finite 8], [Finite 7, Finite 8]]"
         and ?ind2.0 = "[0, 0]" and ?lines2.0 = "[[Finite 7, Finite 8], [Finite 7, Finite 8]]"
         and e = "CollaboratorError ''wandb''"]
      r1 r2 p f
    by blast
  have t1: "interpolate ex_failing_env ex_generated (X_test ex_ev) = Inr ex_generated"
    by (simp add: ex_failing_env_def)
  have t2: "np_random_randint ex_failing_env 0 (length (X_test ex_ev)) 2 = Inr [0, 0]"
    by (simp add: ex_failing_env_def ex_ev_def ex_dataset_def numeral_2_eq_2)
  have t3: "rowwise (get_row (X_test ex_ev)) [0, 0] = Inr [ex_series 5 6, ex_series 5 6]"
    by (simp add: get_row_def ex_ev_def ex_dataset_def)
  have t4: "rowwise (get_row ex_generated) [0, 0] = Inr [ex_series 7 8, ex_series 7 8]"
    by (simp add: get_row_def ex_generated_def)
  have t5: "tsne_data_space ex_failing_env
         ([ex_series 5 6, ex_series 5 6] @ [ex_series 7 8, ex_series 7 8])
       = Inr [[Finite 5, Finite 6], [Finite 5, Finite 6], [Finite 7, Finite 8], [Finite 7, Finite 8]]"
    by (simp add: ex_failing_env_def ex_series_def)
  have t6: "wandb_log ex_failing_env TSNEData = Some (CollaboratorError ''wandb'')"
    by (simp add: ex_failing_env_def)
  have tsne: "log_tsne ex_failing_env ex_ev ex_world 2 ex_generated
         [[Finite 6, Finite 1], [Finite 1, Finite (1 / 2)]]
         [[Finite 8, Finite 1], [Finite 10, Finite 1], [Finite 12, Finite 1]]
       = (Inl (CollaboratorError ''wandb''), new_figure ex_world)"
    using telemetry_failure_propagates
      [where env = ex_failing_env and ev = ex_ev and w = ex_world and n = 2
         and X_gen = ex_generated and Xg = ex_generated
         and ind_t = "[0, 0]" and ind_g = "[0, 0]"
         and Xa = "[ex_series 5 6, ex_series 5 6]" and Xb = "[ex_series 7 8, ex_series 7 8]"
         and Xe = "[[Finite 5, Finite 6], [Finite 5, Finite 6], [Finite 7, Finite 8], [Finite 7, Finite 8]]"
         and zt = "[[Finite 6, Finite 1], [Finite 1, Finite (1 / 2)]]"
         and zg = "[[Finite 8, Finite 1], [Finite 10, Finite 1], [Finite 12, Finite 1]]"
         and e = "CollaboratorError ''wandb''"]
      t1 t2 r2 t3 t4 t5 t6
    by blast
  show ?thesis
    by (intro conjI ok acc r1 p r2 f raised t1 t2 t3 t4 t5 t6 tsne)
qed

text \<open>
  The claim as it was stated, "an error raised inside a telemetry call never propagates
  to the caller", fails with a sink that refuses the entry: the sink's error is what
  \<^verbatim>\<open>log_visual_inspection\<close>, \<^verbatim>\<open>log_pca\<close> and \<^verbatim>\<open>log_tsne\<close> raise, and the figure stays
  open.
\<close>

theorem telemetry_counterexample:
  "wandb_log ex_failing_env (VisualComp ''test vs generated'') = Some (CollaboratorError ''wandb'')
   \<and> log_visual_inspection ex_failing_env ex_world ex_generated ex_generated
        ''test vs generated'' 2
       = (Inl (CollaboratorError ''wandb''), \<lparr>open_figures = 1, logged = []\<rparr>)
   \<and> log_pca ex_failing_env ex_ev ex_world [[[Finite 2, Finite 1]]] [''train''] 2
       = (Inl (CollaboratorError ''wandb''), \<lparr>open_figures = 1, logged = []\<rparr>)
   \<and> log_tsne ex_failing_env ex_ev ex_world 2 ex_generated
         [[Finite 6, Finite 1], [Finite 1, Finite (1 / 2)]]
         [[Finite 8, Finite 1], [Finite 10, Finite 1], [Finite 12, Finite 1]]
       = (Inl (CollaboratorError ''wandb''), \<lparr>open_figures = 1, logged = []\<rparr>)"
proof -
  have f: "wandb_log ex_failing_env (VisualComp ''test vs generated'') = Some (CollaboratorError ''wandb'')"
    by (simp add: ex_failing_env_def)
  show ?thesis
    by (intro conjI f ex_log_visual_fails ex_log_pca_fails ex_log_tsne_fails)
qed

end
